theory Spec2Isabelle
  imports Main
begin

section \<open>Data model\<close>

text \<open>
  Token kinds. In the source a token's \<open>type\<close> is the name of the regular-expression group
  that matched (\<open>matches.lastgroup\<close>), or one of the literals \<open>"NEWLINE"\<close>, \<open>"ENDMARKER"\<close>,
  \<open>"ERROR"\<close> written in \<open>tokenize_file\<close>; the parser compares it with the names below.
\<close>

datatype tok_type =
    NEWLINE | COMMENT | NUMBER | STRING | NAME
  | COMMA | EQUALS | PLUS | MINUS | TIMES | DIVIDE | FLOORDIVIDE | POWER
  | LPAREN | RPAREN | LBRACKET | RBRACKET | LBRACE | RBRACE
  | ENDMARKER | ERROR

text \<open>
  The dataclass \<open>Token\<close> of \<open>tokenizer.py\<close>. Its \<open>value\<close> is the matched text
  (\<open>matches.group()\<close>, a \<open>str\<close>) or the default \<open>None\<close>.
\<close>

record token =
  lineno :: nat
  start_index :: nat
  stop_index :: nat
  type :: tok_type
  "value" :: "string option"

text \<open>
  Everything the code can raise. \<open>OptocadSyntaxError\<close> carries the arguments of its
  constructor in \<open>exceptions.py\<close>: message, filename, lineno, index, text, end_lineno,
  end_index. \<open>AttributeError\<close> carries the name of the missing attribute. \<open>OutOfFuel\<close> is
  not a Python exception: it is the answer of the fuel-bounded parser functions below when
  their recursion budget is exhausted.
\<close>

datatype error =
    AttributeError string
  | TypeError string
  | IndexError
  | StopIteration
  | OptocadSyntaxError string string nat nat "string option" nat nat
  | OutOfFuel

text \<open>
  A file object opened in text mode: its \<open>name\<close> attribute, when it has one, and the text
  not yet read. An \<open>io.StringIO\<close> has no \<open>name\<close> attribute.
\<close>

record fobj =
  name :: "string option"
  buffer :: string

definition StringIO :: "string \<Rightarrow> fobj" where
  "StringIO string = \<lparr>name = None, buffer = string\<rparr>"

text \<open>\<open>fobj.readline()\<close>: the text up to and including the next line feed, or all that is left.\<close>

definition readline :: "fobj \<Rightarrow> string \<times> fobj" where
  "readline f =
     (case dropWhile (\<lambda>c. c \<noteq> CHR 0x0A) (buffer f) of
        [] \<Rightarrow> (buffer f, f\<lparr>buffer := []\<rparr>)
      | nl # rest \<Rightarrow> (takeWhile (\<lambda>c. c \<noteq> CHR 0x0A) (buffer f) @ [nl], f\<lparr>buffer := rest\<rparr>))"

section \<open>Tokenizer\<close>

text \<open>
  The token rules (\<open>tokens.py\<close>: \<open>NEWLINE\<close>, \<open>COMMENT\<close>, \<open>NUMBER\<close>, \<open>STRING\<close>, \<open>NAME\<close>,
  \<open>LITERALS\<close>) are compiled by \<open>_build_rules\<close> into one alternation; the tokenizer only
  calls \<open>self._matcher.match(line, index)\<close> and reads \<open>matches.end()\<close> and
  \<open>matches.lastgroup\<close>. The compiled matcher is therefore a parameter of the model: given
  the line and the index it answers \<open>None\<close> or the end index and the group name.
\<close>

type_synonym matcher = "string \<Rightarrow> nat \<Rightarrow> (nat \<times> tok_type) option"

definition TAB_SIZE :: nat where
  "TAB_SIZE = 4"

definition IGNORE :: string where
  "IGNORE = [CHR '' '', CHR 0x09]"

text \<open>
  \<open>tokenize_file\<close> is a generator. Its frame is suspended at one of the \<open>yield\<close>
  statements; \<open>resume\<close> tells where: not started, inside the scan of a line, after the
  implicit \<open>NEWLINE\<close>, after the \<open>ENDMARKER\<close>, or finished.
\<close>

datatype resume_point = AtStart | InLine | AfterImplicitNewline | AfterEndmarker | Closed

record tokenizer =
  resume :: resume_point
  fobj :: fobj
  t_filename :: string
  script :: "string list"
  t_nesting :: "token list"
  t_lineno :: nat
  t_index :: nat
  t_taboffset :: nat
  previous_line :: string
  line :: string

definition quoted :: "string \<Rightarrow> string" where
  "quoted v = CHR 0x27 # v @ [CHR 0x27]"

definition raise_error :: "tokenizer \<Rightarrow> string \<Rightarrow> token \<Rightarrow> error" where
  "raise_error st error_msg tok =
     OptocadSyntaxError error_msg (t_filename st) (lineno tok) (start_index tok) (value tok)
       (lineno tok) (stop_index tok)"

text \<open>\<open>repr\<close> of a one-character string, for the characters of 7-bit ASCII.\<close>

definition hex_digit :: "nat \<Rightarrow> char" where
  "hex_digit d = ''0123456789abcdef'' ! (d mod 16)"

definition repr_char :: "char \<Rightarrow> string" where
  "repr_char c =
     (if c = CHR 0x27 then [CHR 0x22, c, CHR 0x22]
      else if c = CHR 0x5C then quoted [c, c]
      else if c = CHR 0x0A then quoted [CHR 0x5C, CHR ''n'']
      else if c = CHR 0x0D then quoted [CHR 0x5C, CHR ''r'']
      else if c = CHR 0x09 then quoted [CHR 0x5C, CHR ''t'']
      else if of_char c < (32 :: nat) \<or> of_char c = (127 :: nat)
        then quoted [CHR 0x5C, CHR ''x'', hex_digit (of_char c div 16), hex_digit (of_char c)]
      else quoted [c])"

definition raise_lexing_error :: "tokenizer \<Rightarrow> token \<Rightarrow> error" where
  "raise_lexing_error st tok =
     (case value tok of
        Some (c # cs) \<Rightarrow> raise_error st (''illegal character '' @ repr_char c) tok
      | Some [] \<Rightarrow> IndexError
      | None \<Rightarrow> TypeError ''value is not subscriptable'')"

subsection \<open>Token callbacks\<close>

definition on_NEWLINE :: "token \<Rightarrow> tokenizer \<Rightarrow> error + tokenizer" where
  "on_NEWLINE tok st =
     (case value tok of
        Some v \<Rightarrow> Inr (st\<lparr>t_lineno := t_lineno st + length v\<rparr>)
      | None \<Rightarrow> Inl (TypeError ''value has no len()''))"

definition on_LBRACKET :: "token \<Rightarrow> tokenizer \<Rightarrow> error + tokenizer" where
  "on_LBRACKET tok st = Inr (st\<lparr>t_nesting := t_nesting st @ [tok]\<rparr>)"

definition on_RBRACKET :: "token \<Rightarrow> tokenizer \<Rightarrow> error + tokenizer" where
  "on_RBRACKET tok st =
     (if t_nesting st = [] then Inl (raise_error st (''extraneous '' @ quoted '']'') tok)
      else if value (last (t_nesting st)) = Some ''[''
        then Inr (st\<lparr>t_nesting := butlast (t_nesting st)\<rparr>)
      else Inl (raise_error st (''extraneous '' @ quoted '']'') tok))"

definition on_LPAREN :: "token \<Rightarrow> tokenizer \<Rightarrow> error + tokenizer" where
  "on_LPAREN tok st = Inr (st\<lparr>t_nesting := t_nesting st @ [tok]\<rparr>)"

definition on_RPAREN :: "token \<Rightarrow> tokenizer \<Rightarrow> error + tokenizer" where
  "on_RPAREN tok st =
     (if t_nesting st = [] then Inl (raise_error st (''extraneous '' @ quoted '')'') tok)
      else if value (last (t_nesting st)) = Some ''(''
        then Inr (st\<lparr>t_nesting := butlast (t_nesting st)\<rparr>)
      else Inl (raise_error st (''extraneous '' @ quoted '')'') tok))"

text \<open>\<open>getattr(self, f"on_{token_type}", False)\<close>: the five callbacks the class defines.\<close>

definition token_callback :: "token \<Rightarrow> tokenizer \<Rightarrow> error + tokenizer" where
  "token_callback tok st =
     (if type tok = NEWLINE then on_NEWLINE tok st
      else if type tok = LBRACKET then on_LBRACKET tok st
      else if type tok = RBRACKET then on_RBRACKET tok st
      else if type tok = LPAREN then on_LPAREN tok st
      else if type tok = RPAREN then on_RPAREN tok st
      else Inr st)"

subsection \<open>The body of \<open>tokenize_file\<close>\<close>

text \<open>
  A successful match at \<open>t_index\<close>: the token with its tab-compensated columns, the
  callback, the index moved to \<open>matches.end()\<close>, and the \<open>yield\<close>.
\<close>

definition matched_text :: "nat \<Rightarrow> tokenizer \<Rightarrow> string" where
  "matched_text end st = take (end - t_index st) (drop (t_index st) (line st))"

definition tab_shift :: "string \<Rightarrow> nat" where
  "tab_shift v = (TAB_SIZE - 1) * count_list v (CHR 0x09)"

definition new_token :: "nat \<Rightarrow> tok_type \<Rightarrow> tokenizer \<Rightarrow> token" where
  "new_token end token_type st =
     \<lparr>lineno = t_lineno st,
      start_index = t_index st + t_taboffset st + 1,
      stop_index = end + (t_taboffset st + tab_shift (matched_text end st)) + 1,
      type = token_type,
      value = Some (matched_text end st)\<rparr>"

definition matched :: "nat \<Rightarrow> tok_type \<Rightarrow> tokenizer \<Rightarrow> error + (token option \<times> tokenizer)" where
  "matched end token_type st =
     (case token_callback (new_token end token_type st)
             (st\<lparr>t_taboffset := t_taboffset st + tab_shift (matched_text end st)\<rparr>)
      of
        Inl e \<Rightarrow> Inl e
      | Inr st' \<Rightarrow>
          Inr (Some (new_token end token_type st), st'\<lparr>t_index := end, resume := InLine\<rparr>))"

text \<open>No rule matches at \<open>t_index\<close>: the \<open>ERROR\<close> token and the lexing error.\<close>

definition unmatched :: "tokenizer \<Rightarrow> error" where
  "unmatched st =
     raise_lexing_error st
       \<lparr>lineno = t_lineno st,
        start_index = t_index st + 1,
        stop_index = length (line st) + 1,
        type = ERROR,
        value = Some (drop (t_index st) (line st))\<rparr>"

text \<open>
  After the loop over the lines: the unclosed brackets, the implicit \<open>NEWLINE\<close>, the
  \<open>ENDMARKER\<close>. The \<open>for\<close> loop over \<open>self._nesting\<close> raises in its first iteration.
\<close>

text \<open>
  The condition of the implicit \<open>NEWLINE\<close>: \<open>previous_line\<close> is empty, or its last
  character is neither a carriage return nor a line feed.
\<close>

definition implicit_newline :: "string \<Rightarrow> bool" where
  "implicit_newline previous =
     (if previous = [] then True else if last previous \<in> {CHR 0x0D, CHR 0x0A} then False else True)"

definition after_lines :: "tokenizer \<Rightarrow> error + (token option \<times> tokenizer)" where
  "after_lines st =
     (case t_nesting st of
        tok # rest \<Rightarrow>
          (case value tok of
             Some v \<Rightarrow> Inl (raise_error st (''unclosed '' @ quoted v) tok)
           | None \<Rightarrow> Inl (raise_error st (''unclosed '' @ quoted ''None'') tok))
      | [] \<Rightarrow>
          (if implicit_newline (previous_line st)
           then Inr (Some \<lparr>lineno = t_lineno st, start_index = t_index st + 1,
                           stop_index = t_index st + 1, type = NEWLINE, value = None\<rparr>,
                     st\<lparr>resume := AfterImplicitNewline\<rparr>)
           else Inr (Some \<lparr>lineno = t_lineno st, start_index = 1, stop_index = 1,
                           type = ENDMARKER, value = None\<rparr>,
                     st\<lparr>resume := AfterEndmarker\<rparr>)))"

lemma readline_shorter:
  assumes r: "readline f = (l, f')" and l: "l \<noteq> []"
  shows "length (buffer f') < length (buffer f)"
proof (cases "dropWhile (\<lambda>c. c \<noteq> CHR 0x0A) (buffer f)")
  case Nil
  from r have "l = buffer f" and "buffer f' = []"
    unfolding readline_def Nil by auto
  with l show ?thesis by simp
next
  case (Cons nl rest)
  from r have "buffer f' = rest"
    unfolding readline_def Cons by auto
  moreover have "length (dropWhile (\<lambda>c. c \<noteq> CHR 0x0A) (buffer f)) \<le> length (buffer f)"
    by (rule length_dropWhile_le)
  ultimately show ?thesis unfolding Cons by simp
qed
text \<open>
  The two nested \<open>while\<close> loops, run from the current position up to the next \<open>yield\<close>
  or \<open>raise\<close>: skip an ignorable character, match a token, or fetch the next line.
\<close>

function scan :: "matcher \<Rightarrow> tokenizer \<Rightarrow> error + (token option \<times> tokenizer)" where
  "scan m st =
     (if t_index st < length (line st) then
        (if line st ! t_index st \<in> set IGNORE then scan m (st\<lparr>t_index := t_index st + 1\<rparr>)
         else
           (case m (line st) (t_index st) of
              Some (end, token_type) \<Rightarrow> matched end token_type st
            | None \<Rightarrow> Inl (unmatched st)))
      else
        (if fst (readline (fobj st)) = []
         then after_lines (st\<lparr>previous_line := line st, line := []\<rparr>)
         else scan m (st\<lparr>previous_line := line st,
                         line := fst (readline (fobj st)),
                         fobj := snd (readline (fobj st)),
                         script := script st @ [fst (readline (fobj st))],
                         t_index := 0,
                         t_taboffset := 0\<rparr>)))"
  by pat_completeness auto
termination
proof (relation "measures [\<lambda>(m, st). length (buffer (fobj st)),
                           \<lambda>(m, st). length (line st) - t_index st]")
  show "wf (measures [\<lambda>(m, st). length (buffer (fobj st)),
                      \<lambda>(m, st). length (line st) - t_index st])"
    by (rule wf_measures)
next
  fix m :: matcher and st :: tokenizer
  assume "t_index st < length (line st)"
  then have "length (line st) - (t_index st + 1) < length (line st) - t_index st"
    by arith
  then show "((m, st\<lparr>t_index := t_index st + 1\<rparr>), (m, st))
       \<in> measures [\<lambda>(m, st). length (buffer (fobj st)),
                    \<lambda>(m, st). length (line st) - t_index st]"
    by simp
next
  fix m :: matcher and st :: tokenizer
  assume nonempty: "fst (readline (fobj st)) \<noteq> []"
  have "readline (fobj st) = (fst (readline (fobj st)), snd (readline (fobj st)))"
    by simp
  from readline_shorter [OF this nonempty]
  show "((m, st\<lparr>previous_line := line st,
                     line := fst (readline (fobj st)),
                     fobj := snd (readline (fobj st)),
                     script := script st @ [fst (readline (fobj st))],
                     t_index := 0,
                     t_taboffset := 0\<rparr>), (m, st))
       \<in> measures [\<lambda>(m, st). length (buffer (fobj st)),
                    \<lambda>(m, st). length (line st) - t_index st]"
    by simp
qed

declare scan.simps [simp del]

text \<open>
  One \<open>next()\<close> on the generator: \<open>Inl\<close> an exception, \<open>Inr (None, _)\<close> for
  \<open>StopIteration\<close>, \<open>Inr (Some tok, _)\<close> for a yielded token. The first call runs the
  reset at the head of \<open>tokenize_file\<close>, where \<open>fobj.name\<close> is read.
\<close>

definition tokenizer_next :: "matcher \<Rightarrow> tokenizer \<Rightarrow> error + (token option \<times> tokenizer)" where
  "tokenizer_next m st =
     (case resume st of
        AtStart \<Rightarrow>
          (case name (fobj st) of
             None \<Rightarrow> Inl (AttributeError ''name'')
           | Some n \<Rightarrow>
               scan m (st\<lparr>t_filename := n, script := [], t_nesting := [], t_lineno := 1,
                          t_index := 0, previous_line := [], line := []\<rparr>))
      | InLine \<Rightarrow> scan m st
      | AfterImplicitNewline \<Rightarrow>
          Inr (Some \<lparr>lineno = t_lineno st + 1, start_index = 1, stop_index = 1,
                     type = ENDMARKER, value = None\<rparr>,
               st\<lparr>t_lineno := t_lineno st + 1, t_index := 0, resume := AfterEndmarker\<rparr>)
      | AfterEndmarker \<Rightarrow> Inr (None, st\<lparr>resume := Closed\<rparr>)
      | Closed \<Rightarrow> Inr (None, st))"

text \<open>\<open>OptocadTokenizer().tokenize_file(fobj)\<close>: the generator, not yet started.\<close>

definition tokenize_file :: "fobj \<Rightarrow> tokenizer" where
  "tokenize_file f =
     \<lparr>resume = AtStart, fobj = f, t_filename = [], script = [], t_nesting = [], t_lineno = 0,
      t_index = 0, t_taboffset = 0, previous_line = [], line = []\<rparr>"

definition tokenize :: "string \<Rightarrow> tokenizer" where
  "tokenize string = tokenize_file (StringIO string)"

text \<open>
  The tokens of a whole run, as \<open>list(...)\<close> collects them: at most \<open>n\<close> calls of
  \<open>next()\<close>, the last of which has to be the \<open>StopIteration\<close>.
\<close>

fun drain :: "nat \<Rightarrow> matcher \<Rightarrow> tokenizer \<Rightarrow> error + token list" where
  "drain 0 m st = Inl OutOfFuel"
| "drain (Suc n) m st =
     (case tokenizer_next m st of
        Inl e \<Rightarrow> Inl e
      | Inr (None, st') \<Rightarrow> Inr []
      | Inr (Some tok, st') \<Rightarrow>
          (case drain n m st' of Inl e \<Rightarrow> Inl e | Inr toks \<Rightarrow> Inr (tok # toks)))"

section \<open>Containers and Python values\<close>

text \<open>
  The parser is dynamically typed: a production returns a token, the \<open>EMPTY\<close> marker, a
  string, a list, a dict, a tuple, one of the containers of \<open>containers.py\<close>, or \<open>None\<close>.
  One datatype holds them all. A dict is its list of items in insertion order;
  \<open>OptocadCommand\<close> has the fields \<open>directive\<close>, \<open>args\<close>, \<open>kwargs\<close>,
  \<open>secondary_surfaces\<close>, \<open>OptocadSecondarySurfaceCommand\<close> the fields \<open>args\<close>,
  \<open>kwargs\<close>, the expressions have the operator first.
\<close>

datatype obj =
    PyNone
  | Str string
  | PyInt int
  | PyList "obj list"
  | PyTuple "obj list"
  | PyDict "(obj \<times> obj) list"
  | EMPTY
  | Tok token
  | OptocadUnaryExpression obj obj
  | OptocadBinaryExpression obj obj obj
  | OptocadCommand obj obj obj obj
  | OptocadSecondarySurfaceCommand obj obj
  | OptocadScript "obj list"

text \<open>\<open>d[k] = v\<close> on the items of a dict: an old key keeps its place, a new key goes last.\<close>

fun dict_set :: "(obj \<times> obj) list \<Rightarrow> obj \<Rightarrow> obj \<Rightarrow> (obj \<times> obj) list" where
  "dict_set [] k v = [(k, v)]"
| "dict_set ((k', v') # d) k v = (if k' = k then (k, v) # d else (k', v') # dict_set d k v)"

text \<open>\<open>{**d1, **d2}\<close>: the items of \<open>d1\<close>, then each item of \<open>d2\<close> stored in turn.\<close>

definition dict_merge :: "(obj \<times> obj) list \<Rightarrow> (obj \<times> obj) list \<Rightarrow> (obj \<times> obj) list" where
  "dict_merge d1 d2 = foldl (\<lambda>d (k, v). dict_set d k v) d1 d2"

definition py_dict_merge :: "obj \<Rightarrow> obj \<Rightarrow> error + obj" where
  "py_dict_merge a b =
     (case a of
        PyDict d1 \<Rightarrow>
          (case b of
             PyDict d2 \<Rightarrow> Inr (PyDict (dict_merge d1 d2))
           | _ \<Rightarrow> Inl (TypeError ''object is not a mapping''))
      | _ \<Rightarrow> Inl (TypeError ''object is not a mapping''))"

text \<open>\<open>a + b\<close> where the code concatenates strings.\<close>

definition py_add :: "obj \<Rightarrow> obj \<Rightarrow> error + obj" where
  "py_add a b =
     (case a of
        Str x \<Rightarrow>
          (case b of
             Str y \<Rightarrow> Inr (Str (x @ y))
           | _ \<Rightarrow> Inl (TypeError ''can only concatenate str to str''))
      | _ \<Rightarrow> Inl (TypeError ''unsupported operand type(s) for +''))"

text \<open>\<open>x.value\<close>: only a token has the attribute.\<close>

definition attr_value :: "obj \<Rightarrow> error + obj" where
  "attr_value x =
     (case x of
        Tok t \<Rightarrow> Inr (case value t of None \<Rightarrow> PyNone | Some v \<Rightarrow> Str v)
      | _ \<Rightarrow> Inl (AttributeError ''value''))"

text \<open>
  \<open>int(s)\<close> for a \<open>str\<close>: optional white space around an optional sign and decimal digits,
  where single underscores may separate digits; \<open>None\<close> stands for the \<open>ValueError\<close>.
\<close>

definition is_digit :: "char \<Rightarrow> bool" where
  "is_digit c = (c \<in> set ''0123456789'')"

definition is_space :: "char \<Rightarrow> bool" where
  "is_space c = (c \<in> {CHR '' '', CHR 0x09, CHR 0x0A, CHR 0x0B, CHR 0x0C, CHR 0x0D})"

fun digits_value :: "bool \<Rightarrow> nat \<Rightarrow> string \<Rightarrow> nat option" where
  "digits_value after_digit acc [] = (if after_digit then Some acc else None)"
| "digits_value after_digit acc (c # cs) =
     (if is_digit c then digits_value True (10 * acc + (of_char c - 48)) cs
      else if c = CHR ''_'' \<and> after_digit \<and> cs \<noteq> [] \<and> is_digit (hd cs)
        then digits_value True acc cs
      else None)"

definition py_int :: "string \<Rightarrow> int option" where
  "py_int s =
     (case rev (dropWhile is_space (rev (dropWhile is_space s))) of
        [] \<Rightarrow> None
      | c # cs \<Rightarrow>
          (if c = CHR ''-'' then map_option (\<lambda>n. - int n) (digits_value False 0 cs)
           else if c = CHR ''+'' then map_option int (digits_value False 0 cs)
           else map_option int (digits_value False 0 (c # cs))))"

section \<open>Parser state and primitives\<close>

datatype production =
    Start | Script_line | Command | Command_params | Command_value_list
  | Command_key_value_list | Positional_value | Value | Key_value | Action
  | Expr | Expr1 | Expr2 | Expr3 | Expr4 | Invalid_expr4

text \<open>
  A memo key names the memoized method and its argument: \<open>expect_token\<close> with the token
  type, or a production; the table pairs it with the position of the call.
\<close>

datatype memo_key = Expect_token tok_type | Production production

record parser =
  tokens :: "token list"
  pos :: nat
  memos :: "memo_key \<times> nat \<Rightarrow> (obj \<times> nat) option"
  optocad_script :: "obj list"
  p_filename :: string
  token_stream :: tokenizer

type_synonym 'a result = "error + ('a \<times> parser)"

text \<open>Sequencing: an exception of the first step ends the run.\<close>

definition bind_result :: "'a result \<Rightarrow> ('a \<Rightarrow> parser \<Rightarrow> 'b result) \<Rightarrow> 'b result" where
  "bind_result r f = (case r of Inl e \<Rightarrow> Inl e | Inr (x, s) \<Rightarrow> f x s)"

text \<open>A pure operation that may raise, then the rest.\<close>

definition bind_error :: "error + 'a \<Rightarrow> ('a \<Rightarrow> 'b result) \<Rightarrow> 'b result" where
  "bind_error r f = (case r of Inl e \<Rightarrow> Inl e | Inr x \<Rightarrow> f x)"

text \<open>
  One conjunct \<open>(x := step) is not None and ...\<close> of the condition of an alternative:
  the rest \<open>f\<close> runs when the step did not return \<open>None\<close>; the answer \<open>None\<close> of the whole
  chain says that the condition was false, \<open>Some y\<close> that the alternative returned \<open>y\<close>.
\<close>

definition and_then ::
  "obj result \<Rightarrow> (obj \<Rightarrow> parser \<Rightarrow> obj option result) \<Rightarrow> obj option result" where
  "and_then r f =
     (case r of Inl e \<Rightarrow> Inl e | Inr (x, s) \<Rightarrow> if x = PyNone then Inr (None, s) else f x s)"

text \<open>A conjunct that is a truth value, such as \<open>self.negative_lookahead(...)\<close>.\<close>

definition and_when :: "bool result \<Rightarrow> (parser \<Rightarrow> obj option result) \<Rightarrow> obj option result" where
  "and_when r f =
     (case r of Inl e \<Rightarrow> Inl e | Inr (b, s) \<Rightarrow> if b then f s else Inr (None, s))"

text \<open>\<open>if chain: return y\<close>, else go on with what follows the \<open>if\<close>.\<close>

definition or_else :: "obj option result \<Rightarrow> (parser \<Rightarrow> obj result) \<Rightarrow> obj result" where
  "or_else r g =
     (case r of Inl e \<Rightarrow> Inl e | Inr (Some y, s) \<Rightarrow> Inr (y, s) | Inr (None, s) \<Rightarrow> g s)"

definition mark :: "parser \<Rightarrow> nat" where
  "mark s = pos s"

definition reset :: "nat \<Rightarrow> parser \<Rightarrow> parser" where
  "reset p s = (if p = pos s then s else s\<lparr>pos := p\<rparr>)"

text \<open>The closing \<open>self.reset(pos)\<close> of a production, which then returns \<open>None\<close>.\<close>

definition reset_fail :: "nat \<Rightarrow> parser \<Rightarrow> obj result" where
  "reset_fail p s = Inr (PyNone, reset p s)"

definition peek_token :: "matcher \<Rightarrow> parser \<Rightarrow> token result" where
  "peek_token m s =
     (if pos s = length (tokens s) then
        (case tokenizer_next m (token_stream s) of
           Inl e \<Rightarrow> Inl e
         | Inr (None, st) \<Rightarrow> Inl StopIteration
         | Inr (Some tok, st) \<Rightarrow> Inr (tok, s\<lparr>tokens := tokens s @ [tok], token_stream := st\<rparr>))
      else if pos s < length (tokens s) then Inr (tokens s ! pos s, s)
      else Inl IndexError)"

definition get_token :: "matcher \<Rightarrow> parser \<Rightarrow> token result" where
  "get_token m s = bind_result (peek_token m s) (\<lambda>tok s1. Inr (tok, s1\<lparr>pos := pos s1 + 1\<rparr>))"

definition positive_lookahead :: "matcher \<Rightarrow> tok_type \<Rightarrow> parser \<Rightarrow> bool result" where
  "positive_lookahead m token_type s =
     bind_result (peek_token m s) (\<lambda>tok s1. Inr (type tok = token_type, reset (mark s) s1))"

definition negative_lookahead :: "matcher \<Rightarrow> tok_type \<Rightarrow> parser \<Rightarrow> bool result" where
  "negative_lookahead m token_type s =
     bind_result (positive_lookahead m token_type s) (\<lambda>b s1. Inr (\<not> b, s1))"

section \<open>Memoization\<close>

text \<open>
  Modelled from the spec: \<open>memoize\<close> and \<open>memoize_left_rec\<close> of \<open>memoize.py\<close>, which is
  not among the sources. Plain memoization: the first call at a key (method, argument,
  position) runs the method and stores its result, failure included, with the position
  after the call; a later call at the same key returns the stored result and moves the
  cursor to the stored position.
\<close>

definition memoize :: "memo_key \<Rightarrow> (parser \<Rightarrow> obj result) \<Rightarrow> parser \<Rightarrow> obj result" where
  "memoize key method s =
     (case memos s (key, mark s) of
        Some (tree, endmark) \<Rightarrow> Inr (tree, reset endmark s)
      | None \<Rightarrow>
          bind_result (method s)
            (\<lambda>tree s1. Inr (tree, s1\<lparr>memos := (memos s1)((key, mark s) \<mapsto> (tree, mark s1))\<rparr>)))"

text \<open>
  Modelled from the spec: seed growing. The first call at a key stores a failure as the
  provisional result, so that a nested call at the same key returns it at once. The method
  is then run again and again from the starting position; each run that succeeds and ends
  further than the best so far replaces the stored result and position; the first run that
  fails or does not end further stops the loop, and the best stored result is returned with
  the cursor at its position. The loop counter \<open>n\<close> bounds the number of runs.
\<close>

primrec grow ::
  "nat \<Rightarrow> memo_key \<Rightarrow> (parser \<Rightarrow> obj result) \<Rightarrow> nat \<Rightarrow> obj \<Rightarrow> nat \<Rightarrow> parser \<Rightarrow> obj result" where
  "grow 0 key method start lastresult lastmark s = Inl OutOfFuel"
| "grow (Suc n) key method start lastresult lastmark s =
     bind_result (method (reset start s))
       (\<lambda>result s1.
          if result = PyNone \<or> mark s1 \<le> lastmark then Inr (lastresult, reset lastmark s1)
          else grow n key method start result (mark s1)
                 (s1\<lparr>memos := (memos s1)((key, start) \<mapsto> (result, mark s1))\<rparr>))"

definition memoize_left_rec ::
  "nat \<Rightarrow> memo_key \<Rightarrow> (parser \<Rightarrow> obj result) \<Rightarrow> parser \<Rightarrow> obj result" where
  "memoize_left_rec n key method s =
     (case memos s (key, mark s) of
        Some (tree, endmark) \<Rightarrow> Inr (tree, reset endmark s)
      | None \<Rightarrow>
          grow n key method (mark s) PyNone (mark s)
            (s\<lparr>memos := (memos s)((key, mark s) \<mapsto> (PyNone, mark s))\<rparr>))"

section \<open>Token and repetition helpers\<close>

text \<open>The body of \<open>expect_token\<close> (the log stack is a side channel and is left out).\<close>

definition expect_token_body :: "matcher \<Rightarrow> tok_type \<Rightarrow> parser \<Rightarrow> obj result" where
  "expect_token_body m arg s =
     bind_result (peek_token m s)
       (\<lambda>tok s1.
          if type tok = arg then bind_result (get_token m s1) (\<lambda>result s2. Inr (Tok result, s2))
          else Inr (PyNone, s1))"

definition expect_token :: "matcher \<Rightarrow> tok_type \<Rightarrow> parser \<Rightarrow> obj result" where
  "expect_token m arg = memoize (Expect_token arg) (expect_token_body m arg)"

definition maybe_token :: "matcher \<Rightarrow> tok_type \<Rightarrow> parser \<Rightarrow> obj result" where
  "maybe_token m token_type s =
     or_else (and_then (expect_token m token_type s) (\<lambda>TOKEN s1. Inr (Some TOKEN, s1)))
       (\<lambda>s1. Inr (EMPTY, reset (mark s) s1))"

definition maybe_trailing_comma :: "matcher \<Rightarrow> parser \<Rightarrow> obj result" where
  "maybe_trailing_comma m s =
     or_else
       (and_then (expect_token m COMMA s)
          (\<lambda>COMMA s1.
             bind_result (positive_lookahead m NEWLINE s1)
               (\<lambda>newline s2.
                  if newline then Inr (Some COMMA, s2)
                  else and_when (positive_lookahead m COMMENT s2) (\<lambda>s3. Inr (Some COMMA, s3)))))
       (\<lambda>s1. Inr (EMPTY, reset (mark s) s1))"

text \<open>
  The \<open>while\<close> loop shared by \<open>loop_token\<close> and \<open>loop_production\<close>: collect the results of
  \<open>step\<close> until it returns \<open>None\<close>. The counter bounds the number of iterations.
\<close>

primrec loop_nodes ::
  "nat \<Rightarrow> (parser \<Rightarrow> obj result) \<Rightarrow> obj list \<Rightarrow> parser \<Rightarrow> (obj list) result" where
  "loop_nodes 0 step nodes s = Inl OutOfFuel"
| "loop_nodes (Suc n) step nodes s =
     bind_result (step s)
       (\<lambda>node s1. if node = PyNone then Inr (nodes, s1) else loop_nodes n step (nodes @ [node]) s1)"

text \<open>\<open>len(nodes) >= nonempty\<close> with the Boolean \<open>nonempty\<close> read as 0 or 1.\<close>

definition loop_result :: "bool \<Rightarrow> nat \<Rightarrow> obj list \<Rightarrow> parser \<Rightarrow> obj result" where
  "loop_result nonempty start nodes s =
     (if length nodes \<ge> (if nonempty then 1 else 0) then Inr (PyList nodes, s)
      else Inr (PyNone, reset start s))"

definition loop_token :: "matcher \<Rightarrow> nat \<Rightarrow> tok_type \<Rightarrow> bool \<Rightarrow> parser \<Rightarrow> obj result" where
  "loop_token m n tok nonempty s =
     bind_result (loop_nodes n (expect_token m tok) [] s) (loop_result nonempty (mark s))"

definition loop_production ::
  "nat \<Rightarrow> (production \<Rightarrow> parser \<Rightarrow> obj result) \<Rightarrow> production \<Rightarrow> bool \<Rightarrow> parser \<Rightarrow> obj result" where
  "loop_production n ep production nonempty s =
     bind_result (loop_nodes n (ep production) [] s) (loop_result nonempty (mark s))"

section \<open>Productions\<close>

text \<open>
  Each production is written as in \<open>parser.py\<close>: the alternatives in order, each an
  \<open>and\<close>-chain, \<open>self.reset(pos)\<close> between them. The argument \<open>ep\<close> is
  \<open>self.expect_production\<close>, \<open>n\<close> the loop bound.
\<close>

definition start ::
  "matcher \<Rightarrow> nat \<Rightarrow> (production \<Rightarrow> parser \<Rightarrow> obj result) \<Rightarrow> parser \<Rightarrow> obj result" where
  "start m n ep s =
     or_else
       (and_then (loop_production n ep Script_line False s)
          (\<lambda>lines s1.
             and_then (expect_token m ENDMARKER s1)
               (\<lambda>endmarker s2. Inr (Some (OptocadScript (optocad_script s2)), s2))))
       (reset_fail (mark s))"

text \<open>
  \<open>self.optocad_script[-1].secondary_surfaces.append(command)\<close>. On an empty script the
  \<open>IndexError\<close> is caught, and the handler builds its \<open>OptocadSyntaxError\<close> from
  \<open>self._tokenizer.lineno\<close>: the tokenizer has \<open>_lineno\<close> but no attribute \<open>lineno\<close>, so
  evaluating the arguments raises \<open>AttributeError\<close>.
\<close>

definition append_secondary_surface :: "obj \<Rightarrow> parser \<Rightarrow> obj result" where
  "append_secondary_surface command s =
     (if optocad_script s = [] then Inl (AttributeError ''lineno'')
      else
        (case last (optocad_script s) of
           OptocadCommand directive args kwargs secondary_surfaces \<Rightarrow>
             (case secondary_surfaces of
                PyList surfaces \<Rightarrow>
                  Inr (command,
                       s\<lparr>optocad_script := butlast (optocad_script s) @
                            [OptocadCommand directive args kwargs (PyList (surfaces @ [command]))]\<rparr>)
              | _ \<Rightarrow> Inl (AttributeError ''append''))
         | _ \<Rightarrow> Inl (AttributeError ''secondary_surfaces'')))"

definition is_secondary_surface_command :: "obj \<Rightarrow> bool" where
  "is_secondary_surface_command x =
     (case x of OptocadSecondarySurfaceCommand args kwargs \<Rightarrow> True | _ \<Rightarrow> False)"

definition script_line ::
  "matcher \<Rightarrow> (production \<Rightarrow> parser \<Rightarrow> obj result) \<Rightarrow> parser \<Rightarrow> obj result" where
  "script_line m ep s =
     or_else
       (and_then (ep Command s)
          (\<lambda>command s1.
             and_then (maybe_token m COMMENT s1)
               (\<lambda>comment s2.
                  and_then (expect_token m NEWLINE s2)
                    (\<lambda>newline s3.
                       bind_result
                         (if is_secondary_surface_command command
                          then append_secondary_surface command s3
                          else Inr (command, s3\<lparr>optocad_script := optocad_script s3 @ [command]\<rparr>))
                         (\<lambda>command s4. Inr (Some command, s4))))))
       (\<lambda>s1.
          or_else
            (and_then (maybe_token m COMMENT (reset (mark s) s1))
               (\<lambda>comment s2.
                  and_then (expect_token m NEWLINE s2) (\<lambda>newline s3. Inr (Some EMPTY, s3))))
            (reset_fail (mark s)))"

text \<open>\<open>args, kwargs = command_params\<close>; \<open>command_params\<close> returns pairs only.\<close>

definition unpack_params :: "obj \<Rightarrow> error + obj \<times> obj" where
  "unpack_params x =
     (case x of
        PyTuple [args, kwargs] \<Rightarrow> Inr (args, kwargs)
      | _ \<Rightarrow> Inl (TypeError ''cannot unpack command_params''))"

definition command ::
  "matcher \<Rightarrow> (production \<Rightarrow> parser \<Rightarrow> obj result) \<Rightarrow> parser \<Rightarrow> obj result" where
  "command m ep s =
     or_else
       (and_then (expect_token m NAME s)
          (\<lambda>COMMAND s1.
             and_then (ep Command_params s1)
               (\<lambda>command_params s2.
                  bind_error (unpack_params command_params)
                    (\<lambda>(args, kwargs).
                       bind_error (attr_value COMMAND)
                         (\<lambda>directive.
                            Inr (Some (OptocadCommand directive args kwargs (PyList [])), s2))))))
       (\<lambda>s1.
          or_else
            (and_then (expect_token m PLUS (reset (mark s) s1))
               (\<lambda>plus s2.
                  and_then (ep Command_params s2)
                    (\<lambda>command_params s3.
                       bind_error (unpack_params command_params)
                         (\<lambda>(args, kwargs).
                            Inr (Some (OptocadSecondarySurfaceCommand args kwargs), s3)))))
            (reset_fail (mark s)))"

definition command_params ::
  "matcher \<Rightarrow> (production \<Rightarrow> parser \<Rightarrow> obj result) \<Rightarrow> parser \<Rightarrow> obj result" where
  "command_params m ep s =
     or_else
       (and_then (ep Command_value_list s)
          (\<lambda>command_value_list s1.
             and_then (expect_token m COMMA s1)
               (\<lambda>comma s2.
                  and_then (ep Command_key_value_list s2)
                    (\<lambda>command_key_value_list s3.
                       and_then (maybe_trailing_comma m s3)
                         (\<lambda>trailing s4.
                            Inr (Some (PyTuple [command_value_list, command_key_value_list]), s4))))))
       (\<lambda>s1.
          or_else
            (and_then (ep Command_value_list (reset (mark s) s1))
               (\<lambda>command_value_list s2.
                  and_then (maybe_trailing_comma m s2)
                    (\<lambda>trailing s3. Inr (Some (PyTuple [command_value_list, PyDict []]), s3))))
            (\<lambda>s2.
               or_else
                 (and_then (ep Command_key_value_list (reset (mark s) s2))
                    (\<lambda>command_key_value_list s3.
                       and_then (maybe_trailing_comma m s3)
                         (\<lambda>trailing s4.
                            Inr (Some (PyTuple [PyList [], command_key_value_list]), s4))))
                 (reset_fail (mark s))))"

text \<open>\<open>[positional_value, *command_value_list]\<close>.\<close>

definition list_cons :: "obj \<Rightarrow> obj \<Rightarrow> error + obj" where
  "list_cons x xs =
     (case xs of
        PyList ys \<Rightarrow> Inr (PyList (x # ys))
      | _ \<Rightarrow> Inl (TypeError ''value after * must be a list''))"

definition command_value_list ::
  "matcher \<Rightarrow> (production \<Rightarrow> parser \<Rightarrow> obj result) \<Rightarrow> parser \<Rightarrow> obj result" where
  "command_value_list m ep s =
     or_else
       (and_then (ep Positional_value s)
          (\<lambda>positional_value s1.
             and_then (expect_token m COMMA s1)
               (\<lambda>comma s2.
                  and_then (ep Command_value_list s2)
                    (\<lambda>command_value_list s3.
                       bind_error (list_cons positional_value command_value_list)
                         (\<lambda>values. Inr (Some values, s3))))))
       (\<lambda>s1.
          or_else
            (and_then (ep Positional_value (reset (mark s) s1))
               (\<lambda>positional_value s2. Inr (Some (PyList [positional_value]), s2)))
            (reset_fail (mark s)))"

definition command_key_value_list ::
  "matcher \<Rightarrow> nat \<Rightarrow> (production \<Rightarrow> parser \<Rightarrow> obj result) \<Rightarrow> parser \<Rightarrow> obj result" where
  "command_key_value_list m n ep s =
     or_else
       (and_then (ep Command_key_value_list s)
          (\<lambda>command_key_value_list1 s1.
             and_then (loop_token m n COMMA True s1)
               (\<lambda>commas s2.
                  and_then (ep Command_key_value_list s2)
                    (\<lambda>command_key_value_list2 s3.
                       bind_error (py_dict_merge command_key_value_list1 command_key_value_list2)
                         (\<lambda>merged. Inr (Some merged, s3))))))
       (\<lambda>s1.
          or_else
            (and_then (ep Key_value (reset (mark s) s1)) (\<lambda>key_value s2. Inr (Some key_value, s2)))
            (reset_fail (mark s)))"

definition positional_value ::
  "matcher \<Rightarrow> (production \<Rightarrow> parser \<Rightarrow> obj result) \<Rightarrow> parser \<Rightarrow> obj result" where
  "positional_value m ep s =
     or_else
       (and_then (ep Value s)
          (\<lambda>v s1. and_when (negative_lookahead m EQUALS s1) (\<lambda>s2. Inr (Some v, s2))))
       (reset_fail (mark s))"

definition value_production ::
  "(production \<Rightarrow> parser \<Rightarrow> obj result) \<Rightarrow> parser \<Rightarrow> obj result" where
  "value_production ep s =
     or_else (and_then (ep Action s) (\<lambda>action s1. Inr (Some action, s1)))
       (\<lambda>s1.
          or_else (and_then (ep Expr (reset (mark s) s1)) (\<lambda>expr s2. Inr (Some expr, s2)))
            (reset_fail (mark s)))"

text \<open>
  In the second block the arguments of \<open>OptocadSyntaxError("missing value", ...)\<close> read
  \<open>self._tokenizer.lineno\<close>, an attribute the tokenizer does not have: the \<open>raise\<close>
  statement ends in \<open>AttributeError\<close>.
\<close>

definition key_value ::
  "matcher \<Rightarrow> (production \<Rightarrow> parser \<Rightarrow> obj result) \<Rightarrow> parser \<Rightarrow> obj result" where
  "key_value m ep s =
     or_else
       (and_then (expect_token m NAME s)
          (\<lambda>NAME s1.
             and_then (expect_token m EQUALS s1)
               (\<lambda>equals s2.
                  and_then (ep Value s2)
                    (\<lambda>v s3.
                       bind_error (attr_value NAME) (\<lambda>key. Inr (Some (PyDict [(key, v)]), s3))))))
       (\<lambda>s1.
          or_else
            (and_then (expect_token m NAME (reset (mark s) s1))
               (\<lambda>NAME s2.
                  and_then (expect_token m EQUALS s2)
                    (\<lambda>EQUALS s3.
                       bind_result (ep Value s3)
                         (\<lambda>v s4.
                            if v = PyNone then Inl (AttributeError ''lineno'')
                            else Inr (None, s4)))))
            (reset_fail (mark s)))"

text \<open>\<open>"{" + action + "}" + NUMBER\<close>, evaluated from the left.\<close>

definition braced :: "obj \<Rightarrow> obj \<Rightarrow> error + obj" where
  "braced action number =
     (case py_add (Str ''{'') action of
        Inl e \<Rightarrow> Inl e
      | Inr a \<Rightarrow> (case py_add a (Str ''}'') of Inl e \<Rightarrow> Inl e | Inr b \<Rightarrow> py_add b number))"

text \<open>
  The \<open>try\<close> statement of the braces alternative. \<open>NUMBER\<close> is a token or \<open>EMPTY\<close>. A
  \<open>ValueError\<close> of \<open>int(NUMBER.value)\<close> is passed over and the alternative is left without
  a result; otherwise the \<open>else\<close> clause returns the concatenation, whose last operand is
  then the \<open>int\<close>.
\<close>

definition repeat_count :: "obj \<Rightarrow> obj \<Rightarrow> parser \<Rightarrow> obj option result" where
  "repeat_count action number s =
     (if number = EMPTY then bind_error (braced action (Str [])) (\<lambda>r. Inr (Some r, s))
      else
        bind_error (attr_value number)
          (\<lambda>v. case v of
                  Str text \<Rightarrow>
                    (case py_int text of
                       None \<Rightarrow> Inr (None, s)
                     | Some i \<Rightarrow> bind_error (braced action (PyInt i)) (\<lambda>r. Inr (Some r, s)))
                | _ \<Rightarrow> Inl (TypeError ''int() argument must be a string or a number'')))"

text \<open>\<open>set(NAME.value) <= set("cdhinrstv")\<close>.\<close>

definition motion_codes :: "obj \<Rightarrow> error + bool" where
  "motion_codes v =
     (case v of
        Str text \<Rightarrow> Inr (set text \<subseteq> set ''cdhinrstv'')
      | _ \<Rightarrow> Inl (TypeError ''object is not iterable''))"

definition grouped ::
  "matcher \<Rightarrow> (production \<Rightarrow> parser \<Rightarrow> obj result) \<Rightarrow> tok_type \<Rightarrow> tok_type \<Rightarrow> string \<Rightarrow> string \<Rightarrow>
   parser \<Rightarrow> obj option result" where
  "grouped m ep opening closing left right s =
     and_then (expect_token m opening s)
       (\<lambda>opened s1.
          and_then (ep Action s1)
            (\<lambda>action s2.
               and_then (expect_token m closing s2)
                 (\<lambda>closed s3.
                    bind_error (py_add (Str left) action)
                      (\<lambda>a. bind_error (py_add a (Str right)) (\<lambda>r. Inr (Some r, s3))))))"

definition action ::
  "matcher \<Rightarrow> (production \<Rightarrow> parser \<Rightarrow> obj result) \<Rightarrow> parser \<Rightarrow> obj result" where
  "action m ep s =
     or_else
       (and_then (ep Action s)
          (\<lambda>action1 s1.
             and_then (ep Action s1)
               (\<lambda>action2 s2. bind_error (py_add action1 action2) (\<lambda>r. Inr (Some r, s2)))))
       (\<lambda>s1.
          or_else
            (and_then (expect_token m LBRACE (reset (mark s) s1))
               (\<lambda>lbrace s2.
                  and_then (ep Action s2)
                    (\<lambda>action s3.
                       and_then (expect_token m RBRACE s3)
                         (\<lambda>rbrace s4.
                            and_then (maybe_token m NUMBER s4) (repeat_count action)))))
            (\<lambda>s2.
               or_else (grouped m ep LBRACKET RBRACKET ''['' '']'' (reset (mark s) s2))
                 (\<lambda>s3.
                    or_else (grouped m ep LPAREN RPAREN ''('' '')'' (reset (mark s) s3))
                      (\<lambda>s4.
                         or_else
                           (and_then (expect_token m NAME (reset (mark s) s4))
                              (\<lambda>NAME s5.
                                 bind_error (attr_value NAME)
                                   (\<lambda>v. bind_error (motion_codes v)
                                          (\<lambda>ok. if ok then Inr (Some v, s5) else Inr (None, s5)))))
                           (reset_fail (mark s))))))"

text \<open>
  The \<open>for operator in (...)\<close> loops of \<open>expr\<close>, \<open>expr1\<close> and \<open>expr2\<close>: one alternative
  per operator, \<open>self.reset(pos)\<close> after each.
\<close>

fun for_operators ::
  "(tok_type \<Rightarrow> parser \<Rightarrow> obj option result) \<Rightarrow> nat \<Rightarrow> tok_type list \<Rightarrow> (parser \<Rightarrow> obj result) \<Rightarrow>
   parser \<Rightarrow> obj result" where
  "for_operators alternative position [] rest s = rest s"
| "for_operators alternative position (operator # operators) rest s =
     or_else (alternative operator s)
       (\<lambda>s1. for_operators alternative position operators rest (reset position s1))"

definition binary ::
  "matcher \<Rightarrow> (production \<Rightarrow> parser \<Rightarrow> obj result) \<Rightarrow> production \<Rightarrow> production \<Rightarrow> tok_type \<Rightarrow>
   parser \<Rightarrow> obj option result" where
  "binary m ep left right operator s =
     and_then (ep left s)
       (\<lambda>lhs s1.
          and_then (expect_token m operator s1)
            (\<lambda>operator s2.
               and_then (ep right s2)
                 (\<lambda>rhs s3.
                    bind_error (attr_value operator)
                      (\<lambda>op. Inr (Some (OptocadBinaryExpression op lhs rhs), s3)))))"

definition expr ::
  "matcher \<Rightarrow> (production \<Rightarrow> parser \<Rightarrow> obj result) \<Rightarrow> parser \<Rightarrow> obj result" where
  "expr m ep s =
     for_operators (binary m ep Expr Expr1) (mark s) [PLUS, MINUS]
       (\<lambda>s1. or_else (and_then (ep Expr1 s1) (\<lambda>expr1 s2. Inr (Some expr1, s2)))
                (reset_fail (mark s)))
       s"

definition expr1 ::
  "matcher \<Rightarrow> (production \<Rightarrow> parser \<Rightarrow> obj result) \<Rightarrow> parser \<Rightarrow> obj result" where
  "expr1 m ep s =
     for_operators (binary m ep Expr1 Expr2) (mark s) [TIMES, DIVIDE, FLOORDIVIDE]
       (\<lambda>s1. or_else (and_then (ep Expr2 s1) (\<lambda>expr2 s2. Inr (Some expr2, s2)))
                (reset_fail (mark s)))
       s"

definition unary ::
  "matcher \<Rightarrow> (production \<Rightarrow> parser \<Rightarrow> obj result) \<Rightarrow> tok_type \<Rightarrow> parser \<Rightarrow> obj option result" where
  "unary m ep unary_operator s =
     and_then (expect_token m unary_operator s)
       (\<lambda>operator s1.
          and_then (ep Expr2 s1)
            (\<lambda>expr2 s2.
               bind_error (attr_value operator)
                 (\<lambda>op. Inr (Some (OptocadUnaryExpression op expr2), s2))))"

definition expr2 ::
  "matcher \<Rightarrow> (production \<Rightarrow> parser \<Rightarrow> obj result) \<Rightarrow> parser \<Rightarrow> obj result" where
  "expr2 m ep s =
     for_operators (unary m ep) (mark s) [PLUS, MINUS]
       (\<lambda>s1. or_else (and_then (ep Expr3 s1) (\<lambda>expr3 s2. Inr (Some expr3, s2)))
                (reset_fail (mark s)))
       s"

definition expr3 ::
  "matcher \<Rightarrow> (production \<Rightarrow> parser \<Rightarrow> obj result) \<Rightarrow> parser \<Rightarrow> obj result" where
  "expr3 m ep s =
     or_else (binary m ep Expr4 Expr2 POWER s)
       (\<lambda>s1. or_else (and_then (ep Expr4 (reset (mark s) s1)) (\<lambda>expr4 s2. Inr (Some expr4, s2)))
                (reset_fail (mark s)))"

text \<open>
  \<open>expr4\<close> has three alternatives: a parenthesized \<open>expr\<close>, a \<open>NUMBER\<close> not followed by a
  \<open>NUMBER\<close>, and \<open>invalid_expr4\<close>, whose result it raises. Nothing the parser builds is
  an exception, so a \<open>raise\<close> of such a result could only be a \<open>TypeError\<close>.
\<close>

definition expr4 ::
  "matcher \<Rightarrow> (production \<Rightarrow> parser \<Rightarrow> obj result) \<Rightarrow> parser \<Rightarrow> obj result" where
  "expr4 m ep s =
     or_else
       (and_then (expect_token m LPAREN s)
          (\<lambda>lparen s1.
             and_then (ep Expr s1)
               (\<lambda>expr s2. and_then (expect_token m RPAREN s2) (\<lambda>rparen s3. Inr (Some expr, s3)))))
       (\<lambda>s1.
          or_else
            (and_then (expect_token m NUMBER (reset (mark s) s1))
               (\<lambda>TOKEN s2.
                  and_when (negative_lookahead m NUMBER s2)
                    (\<lambda>s3. bind_error (attr_value TOKEN) (\<lambda>v. Inr (Some v, s3)))))
            (\<lambda>s2.
               or_else
                 (and_then (ep Invalid_expr4 (reset (mark s) s2))
                    (\<lambda>error s3. Inl (TypeError ''exceptions must derive from BaseException'')))
                 (reset_fail (mark s))))"

definition is_int :: "obj \<Rightarrow> bool" where
  "is_int v = (case v of PyInt i \<Rightarrow> True | _ \<Rightarrow> False)"

text \<open>
  Both \<open>return\<close> statements of \<open>invalid_expr4\<close> call \<open>OptocadSyntaxError\<close> with three
  arguments (the message, \<open>self.script\<close> and a token), where the constructor of
  \<open>exceptions.py\<close> requires \<open>message\<close>, \<open>filename\<close>, \<open>lineno\<close>, \<open>index\<close> and \<open>text\<close>:
  the call raises \<open>TypeError\<close>.
\<close>

definition invalid_expr4 ::
  "matcher \<Rightarrow> (production \<Rightarrow> parser \<Rightarrow> obj result) \<Rightarrow> parser \<Rightarrow> obj result" where
  "invalid_expr4 m ep s =
     or_else
       (and_then (expect_token m NUMBER s)
          (\<lambda>NUMBER1 s1.
             and_then (expect_token m NUMBER s1)
               (\<lambda>NUMBER2 s2.
                  bind_error (attr_value NUMBER1)
                    (\<lambda>v1. bind_error (if is_int v1 then attr_value NUMBER2 else Inr PyNone)
                       (\<lambda>v2. if is_int v1 \<and> is_int v2
                              then Inl (TypeError ''__init__() missing 2 required positional arguments: index and text'')
                              else Inl (TypeError ''__init__() missing 2 required positional arguments: index and text''))))))
       (reset_fail (mark s))"

section \<open>The parser entry points\<close>

text \<open>
  \<open>getattr(self, production)\<close>: the method with its decorator. \<open>start\<close> is the only
  production that is not memoized; \<open>command_key_value_list\<close>, \<open>action\<close>, \<open>expr\<close> and
  \<open>expr1\<close> carry \<open>memoize_left_rec\<close>.
\<close>

definition production_method ::
  "matcher \<Rightarrow> nat \<Rightarrow> (production \<Rightarrow> parser \<Rightarrow> obj result) \<Rightarrow> production \<Rightarrow> parser \<Rightarrow> obj result" where
  "production_method m n ep production =
     (case production of
        Start \<Rightarrow> start m n ep
      | Script_line \<Rightarrow> memoize (Production Script_line) (script_line m ep)
      | Command \<Rightarrow> memoize (Production Command) (command m ep)
      | Command_params \<Rightarrow> memoize (Production Command_params) (command_params m ep)
      | Command_value_list \<Rightarrow> memoize (Production Command_value_list) (command_value_list m ep)
      | Command_key_value_list \<Rightarrow>
          memoize_left_rec n (Production Command_key_value_list) (command_key_value_list m n ep)
      | Positional_value \<Rightarrow> memoize (Production Positional_value) (positional_value m ep)
      | Value \<Rightarrow> memoize (Production Value) (value_production ep)
      | Key_value \<Rightarrow> memoize (Production Key_value) (key_value m ep)
      | Action \<Rightarrow> memoize_left_rec n (Production Action) (action m ep)
      | Expr \<Rightarrow> memoize_left_rec n (Production Expr) (expr m ep)
      | Expr1 \<Rightarrow> memoize_left_rec n (Production Expr1) (expr1 m ep)
      | Expr2 \<Rightarrow> memoize (Production Expr2) (expr2 m ep)
      | Expr3 \<Rightarrow> memoize (Production Expr3) (expr3 m ep)
      | Expr4 \<Rightarrow> memoize (Production Expr4) (expr4 m ep)
      | Invalid_expr4 \<Rightarrow> memoize (Production Invalid_expr4) (invalid_expr4 m ep))"

text \<open>
  \<open>expect_production\<close> calls the method and passes its result on. The recursion of the
  productions through it has no structural measure, so the model counts it down: with
  budget \<open>n\<close> the nesting of productions, the runs of a seed-growing loop and the
  iterations of a repetition are each limited to \<open>n\<close>, and \<open>OutOfFuel\<close> is raised beyond.
\<close>

primrec expect_production :: "matcher \<Rightarrow> nat \<Rightarrow> production \<Rightarrow> parser \<Rightarrow> obj result" where
  "expect_production m 0 = (\<lambda>production s. Inl OutOfFuel)"
| "expect_production m (Suc n) = production_method m n (expect_production m n)"

definition diagnose_error :: "matcher \<Rightarrow> parser \<Rightarrow> error" where
  "diagnose_error m s =
     (case (if tokens s = [] then peek_token m s else Inr (last (tokens s), s)) of
        Inl e \<Rightarrow> e
      | Inr (error_token, s1) \<Rightarrow>
          OptocadSyntaxError ''syntax error'' (p_filename s1) (lineno error_token)
            (start_index error_token) (value error_token) (lineno error_token)
            (stop_index error_token))"

text \<open>
  \<open>parse_file\<close>: the reset of the parser state, where \<open>fobj.name\<close> is read, then the
  \<open>start\<close> production, then the diagnosis when it returned \<open>None\<close>.
\<close>

definition parse_file :: "matcher \<Rightarrow> nat \<Rightarrow> fobj \<Rightarrow> error + obj" where
  "parse_file m n f =
     (case name f of
        None \<Rightarrow> Inl (AttributeError ''name'')
      | Some filename \<Rightarrow>
          (case expect_production m n Start
                  \<lparr>tokens = [], pos = 0, memos = Map.empty, optocad_script = [],
                   p_filename = filename, token_stream = tokenize_file f\<rparr>
           of
             Inl e \<Rightarrow> Inl e
           | Inr (tree, s) \<Rightarrow> if tree \<noteq> PyNone then Inr tree else Inl (diagnose_error m s)))"

definition parse :: "matcher \<Rightarrow> nat \<Rightarrow> string \<Rightarrow> error + obj" where
  "parse m n string = parse_file m n (StringIO string)"

section \<open>An example matcher\<close>

text \<open>
  Modelled from the spec: the patterns of \<open>tokens.py\<close> are not among the sources. The
  spec gives the order of the rules (\<open>NEWLINE\<close>, \<open>COMMENT\<close>, \<open>NUMBER\<close>, \<open>STRING\<close>,
  \<open>NAME\<close>, then the literal punctuation), says that \<open>inf\<close> is a \<open>NUMBER\<close>, that an
  integer with a leading zero and a numeral with two decimal points are lexed as two
  \<open>NUMBER\<close> tokens in a row, and names the punctuation tokens. The matcher below has
  these properties; the theorems about the parser do not depend on it: they assume how
  the matcher at hand lexes the lines of their input, and this one shows that the
  assumptions can be met.
\<close>

definition is_name_start :: "char \<Rightarrow> bool" where
  "is_name_start c = (c \<in> set ''abcdefghijklmnopqrstuvwxyzABCDEFGHIJKLMNOPQRSTUVWXYZ_'')"

definition is_name_char :: "char \<Rightarrow> bool" where
  "is_name_char c = (if is_name_start c then True else if is_digit c then True else c = CHR ''.'')"

definition digits_length :: "string \<Rightarrow> nat" where
  "digits_length s = length (takeWhile is_digit s)"

definition fraction_length :: "string \<Rightarrow> nat" where
  "fraction_length s =
     (case s of
        [] \<Rightarrow> 0
      | c # cs \<Rightarrow> if c = CHR ''.'' \<and> 0 < digits_length cs then 1 + digits_length cs else 0)"

definition number_length :: "string \<Rightarrow> nat" where
  "number_length s =
     (if take 3 s = ''inf'' then 3
      else
        (case s of
           [] \<Rightarrow> 0
         | c # cs \<Rightarrow>
             if c = CHR ''0'' then 1 + fraction_length cs
             else if is_digit c
               then 1 + digits_length cs + fraction_length (drop (digits_length cs) cs)
             else fraction_length s))"

definition string_length :: "string \<Rightarrow> nat" where
  "string_length s =
     (case s of
        [] \<Rightarrow> 0
      | q # cs \<Rightarrow>
          if q \<in> {CHR 0x22, CHR 0x27} \<and> q \<in> set (takeWhile (\<lambda>c. c \<noteq> CHR 0x0A) cs)
          then length (takeWhile (\<lambda>c. c \<noteq> q) cs) + 2
          else 0)"

definition literal :: "string \<Rightarrow> (nat \<times> tok_type) option" where
  "literal s =
     (if take 2 s = ''**'' then Some (2, POWER)
      else if take 2 s = ''//'' then Some (2, FLOORDIVIDE)
      else
        (case s of
           [] \<Rightarrow> None
         | c # cs \<Rightarrow>
             map_option (Pair 1)
               (map_of
                  [(CHR '','', COMMA), (CHR ''='', EQUALS), (CHR ''+'', PLUS), (CHR ''-'', MINUS),
                   (CHR ''*'', TIMES), (CHR ''/'', DIVIDE), (CHR ''('', LPAREN), (CHR '')'', RPAREN),
                   (CHR ''['', LBRACKET), (CHR '']'', RBRACKET), (CHR ''{'', LBRACE),
                   (CHR ''}'', RBRACE)]
                  c)))"

definition match_rules :: "string \<Rightarrow> (nat \<times> tok_type) option" where
  "match_rules s =
     (if s \<noteq> [] \<and> hd s = CHR 0x0A then Some (length (takeWhile (\<lambda>c. c = CHR 0x0A) s), NEWLINE)
      else if s \<noteq> [] \<and> hd s = CHR ''#''
        then Some (length (takeWhile (\<lambda>c. c \<noteq> CHR 0x0A) s), COMMENT)
      else if 0 < number_length s then Some (number_length s, NUMBER)
      else if 0 < string_length s then Some (string_length s, STRING)
      else if s \<noteq> [] \<and> is_name_start (hd s)
        then Some (length (takeWhile is_name_char s), NAME)
      else literal s)"

definition example_matcher :: matcher where
  "example_matcher text index =
     map_option (\<lambda>(n, token_type). (index + n, token_type)) (match_rules (drop index text))"

lemmas matcher_eval =
  example_matcher_def match_rules_def literal_def string_length_def number_length_def
  fraction_length_def digits_length_def is_name_char_def is_name_start_def is_digit_def

section \<open>Evaluation rules\<close>

lemma bind_result_simps:
  "bind_result (Inl e) f = Inl e"
  "bind_result (Inr (x, s)) f = f x s"
  by (simp_all add: bind_result_def)

lemma bind_error_simps:
  "bind_error (Inl e) g = Inl e"
  "bind_error (Inr y) g = g y"
  by (simp_all add: bind_error_def)

lemma and_then_simps:
  "and_then (Inl e) f = Inl e"
  "and_then (Inr (x, s)) f = (if x = PyNone then Inr (None, s) else f x s)"
  by (simp_all add: and_then_def)

lemma and_when_simps:
  "and_when (Inl e) h = Inl e"
  "and_when (Inr (b, s)) h = (if b then h s else Inr (None, s))"
  by (simp_all add: and_when_def)

lemma or_else_simps:
  "or_else (Inl e) g = Inl e"
  "or_else (Inr (Some y, s)) g = Inr (y, s)"
  "or_else (Inr (None, s)) g = g s"
  by (simp_all add: or_else_def)

lemma bind_result_cong: "r = r' \<Longrightarrow> bind_result r f = bind_result r' f"
  by simp

lemma bind_error_cong: "r = r' \<Longrightarrow> bind_error r f = bind_error r' f"
  by simp

lemma and_then_cong: "r = r' \<Longrightarrow> and_then r f = and_then r' f"
  by simp

lemma and_when_cong: "r = r' \<Longrightarrow> and_when r f = and_when r' f"
  by simp

lemma or_else_cong: "r = r' \<Longrightarrow> or_else r f = or_else r' f"
  by simp

lemma expect_production_numeral:
  "expect_production m (numeral k) production s =
     production_method m (pred_numeral k) (expect_production m (pred_numeral k)) production s"
  by (simp add: numeral_eq_Suc)

lemma grow_numeral:
  "grow (numeral k) key method position lastresult lastmark s =
     bind_result (method (reset position s))
       (\<lambda>result s1.
          if result = PyNone \<or> mark s1 \<le> lastmark then Inr (lastresult, reset lastmark s1)
          else grow (pred_numeral k) key method position result (mark s1)
                 (s1\<lparr>memos := (memos s1)((key, position) \<mapsto> (result, mark s1))\<rparr>))"
  by (simp add: numeral_eq_Suc)

lemma loop_nodes_numeral:
  "loop_nodes (numeral k) step nodes s =
     bind_result (step s)
       (\<lambda>node s1.
          if node = PyNone then Inr (nodes, s1)
          else loop_nodes (pred_numeral k) step (nodes @ [node]) s1)"
  by (simp add: numeral_eq_Suc)

lemma drain_numeral:
  "drain (numeral k) m st =
     (case tokenizer_next m st of
        Inl e \<Rightarrow> Inl e
      | Inr (None, st') \<Rightarrow> Inr []
      | Inr (Some tok, st') \<Rightarrow>
          (case drain (pred_numeral k) m st' of Inl e \<Rightarrow> Inl e | Inr toks \<Rightarrow> Inr (tok # toks)))"
  by (simp add: numeral_eq_Suc)

lemmas tokenizer_eval =
  tokenizer_next_def tokenize_file_def scan.simps readline_def matched_def new_token_def
  matched_text_def tab_shift_def TAB_SIZE_def IGNORE_def token_callback_def on_NEWLINE_def
  on_LBRACKET_def on_RBRACKET_def on_LPAREN_def on_RPAREN_def after_lines_def
  implicit_newline_def raise_error_def
  quoted_def unmatched_def raise_lexing_error_def repr_char_def

lemmas parser_eval =
  parse_file_def diagnose_error_def expect_production_numeral production_method_def
  grow_numeral loop_nodes_numeral memoize_def memoize_left_rec_def
  bind_result_simps bind_error_simps and_then_simps and_when_simps or_else_simps
  mark_def reset_def reset_fail_def peek_token_def get_token_def positive_lookahead_def
  negative_lookahead_def expect_token_body_def expect_token_def maybe_token_def
  maybe_trailing_comma_def loop_result_def loop_token_def loop_production_def
  start_def append_secondary_surface_def is_secondary_surface_command_def script_line_def
  unpack_params_def command_def command_params_def list_cons_def command_value_list_def
  command_key_value_list_def positional_value_def value_production_def key_value_def
  braced_def repeat_count_def motion_codes_def grouped_def action_def binary_def expr_def
  expr1_def unary_def expr2_def expr3_def expr4_def is_int_def invalid_expr4_def
  attr_value_def py_add_def py_dict_merge_def dict_merge_def py_int_def is_digit_def
  is_space_def

section \<open>What the matcher is assumed to do\<close>

text \<open>
  \<open>lexes m text toks\<close>: at each listed index of the line \<open>text\<close> the matcher \<open>m\<close> matches
  up to the listed end index with the listed group.
\<close>

definition lexes :: "matcher \<Rightarrow> string \<Rightarrow> (nat \<times> nat \<times> tok_type) list \<Rightarrow> bool" where
  "lexes m text toks = list_all (\<lambda>(i, e, t). m text i = Some (e, t)) toks"

section \<open>The shape of a lexer run\<close>

text \<open>The errors raised through \<open>_raise_error\<close>: an \<open>OptocadSyntaxError\<close> with its location.\<close>

definition is_syntax_error :: "error \<Rightarrow> bool" where
  "is_syntax_error e =
     (case e of OptocadSyntaxError msg filename l i text l' i' \<Rightarrow> True | _ \<Rightarrow> False)"

text \<open>
  The end of a token list. The tokens matched in the text carry their text as value; the
  implicit \<open>NEWLINE\<close> and the \<open>ENDMARKER\<close> are built without a value. After the
  longest prefix of matched tokens there is nothing but tokens without value: the
  implicit \<open>NEWLINE\<close> followed by the \<open>ENDMARKER\<close> when an implicit \<open>NEWLINE\<close> is due,
  the \<open>ENDMARKER\<close> alone when it is not.
\<close>

definition run_shape :: "bool \<Rightarrow> token list \<Rightarrow> bool" where
  "run_shape synthetic_newline toks =
     (map type (dropWhile (\<lambda>t. value t \<noteq> None) toks) =
        (if synthetic_newline then [NEWLINE, ENDMARKER] else [ENDMARKER]) \<and>
      list_all (\<lambda>t. value t = None) (dropWhile (\<lambda>t. value t \<noteq> None) toks))"

text \<open>
  The text that decides the implicit \<open>NEWLINE\<close>: what is left in the file, or the
  current line once the file is exhausted. Its last character is the last character of
  the last line that will have been read.
\<close>

definition pending_text :: "tokenizer \<Rightarrow> string" where
  "pending_text st = (if buffer (fobj st) = [] then line st else buffer (fobj st))"

text \<open>The characters not yet consumed: those left in the file and those left on the line.\<close>

definition remaining :: "tokenizer \<Rightarrow> nat" where
  "remaining st = length (buffer (fobj st)) + (length (line st) - t_index st)"

section \<open>The string entry points\<close>

text \<open>
  Claim C1. For every input string, \<open>parse\<close> raises \<open>AttributeError\<close> before any token is
  read: it wraps the string in a \<open>StringIO\<close>, and \<open>parse_file\<close> starts by reading
  \<open>fobj.name\<close>, which a \<open>StringIO\<close> does not have. The generator returned by \<open>tokenize\<close>
  reads the same attribute in its first step and raises the same error. This holds for
  every matcher and every recursion budget.
\<close>

theorem string_entry_points_raise_AttributeError:
  "parse m n string = Inl (AttributeError ''name'') \<and>
   tokenizer_next m (tokenize string) = Inl (AttributeError ''name'')"
  by (simp add: parse_def parse_file_def StringIO_def tokenize_def tokenize_file_def
      tokenizer_next_def)

section \<open>Columns and tabs\<close>

text \<open>
  Claim C10 (the code departs from it). The line is a tab followed by \<open>m1\<close> and a line
  feed. The tab is skipped as ignorable white space, which advances the index but leaves
  \<open>_taboffset\<close> unchanged; only tabs inside a matched token are counted. The token \<open>m1\<close>
  is therefore reported at columns 2 to 4, the raw character positions plus one, and not
  at the display columns 5 to 7 that a tab of width 4 in front of it gives.
\<close>

theorem skipped_tab_does_not_shift_columns:
  assumes "lexes m (CHR 0x09 # ''m1\<newline>'') [(1, 3, NAME), (3, 4, NEWLINE)]"
  shows "drain 5 m (tokenize_file \<lparr>name = Some ''f'', buffer = CHR 0x09 # ''m1\<newline>''\<rparr>) =
     Inr [\<lparr>lineno = 1, start_index = 2, stop_index = 4, type = NAME, value = Some ''m1''\<rparr>,
          \<lparr>lineno = 1, start_index = 4, stop_index = 5, type = NEWLINE,
             value = Some ''\<newline>''\<rparr>,
          \<lparr>lineno = 2, start_index = 1, stop_index = 1, type = ENDMARKER, value = None\<rparr>]"
  using assms by (simp add: lexes_def tokenizer_eval drain_numeral numeral_2_eq_2 [symmetric])

theorem skipped_tab_does_not_shift_columns_witness:
  "lexes example_matcher (CHR 0x09 # ''m1\<newline>'') [(1, 3, NAME), (3, 4, NEWLINE)] \<and>
   drain 5 example_matcher
     (tokenize_file \<lparr>name = Some ''f'', buffer = CHR 0x09 # ''m1\<newline>''\<rparr>) =
     Inr [\<lparr>lineno = 1, start_index = 2, stop_index = 4, type = NAME, value = Some ''m1''\<rparr>,
          \<lparr>lineno = 1, start_index = 4, stop_index = 5, type = NEWLINE,
             value = Some ''\<newline>''\<rparr>,
          \<lparr>lineno = 2, start_index = 1, stop_index = 1, type = ENDMARKER, value = None\<rparr>]"
proof -
  have h: "lexes example_matcher (CHR 0x09 # ''m1\<newline>'') [(1, 3, NAME), (3, 4, NEWLINE)]"
    by (simp add: lexes_def matcher_eval)
  from h skipped_tab_does_not_shift_columns [OF h] show ?thesis by (rule conjI)
qed

section \<open>Unclosed brackets\<close>

text \<open>
  Claim C9 (the code departs from it). The input is two opening parentheses. Both are
  pushed on the nesting stack; after the last line the loop over the stack raises in its
  first iteration, so the run ends with one error, for the first parenthesis at column 1,
  and the second unclosed parenthesis is never reported.
\<close>

theorem only_first_unclosed_bracket_is_reported:
  assumes "lexes m ''(('' [(0, 1, LPAREN), (1, 2, LPAREN)]"
  shows "drain 5 m (tokenize_file \<lparr>name = Some ''f'', buffer = ''((''\<rparr>) =
     Inl (OptocadSyntaxError (''unclosed '' @ quoted ''('') ''f'' 1 1 (Some ''('') 1 2)"
  using assms by (simp add: lexes_def tokenizer_eval drain_numeral numeral_2_eq_2 [symmetric])

theorem only_first_unclosed_bracket_is_reported_witness:
  "lexes example_matcher ''(('' [(0, 1, LPAREN), (1, 2, LPAREN)] \<and>
   drain 5 example_matcher (tokenize_file \<lparr>name = Some ''f'', buffer = ''((''\<rparr>) =
     Inl (OptocadSyntaxError (''unclosed '' @ quoted ''('') ''f'' 1 1 (Some ''('') 1 2)"
proof -
  have h: "lexes example_matcher ''(('' [(0, 1, LPAREN), (1, 2, LPAREN)]"
    by (simp add: lexes_def matcher_eval)
  from h only_first_unclosed_bracket_is_reported [OF h] show ?thesis by (rule conjI)
qed

section \<open>Parsing the scenarios of the spec\<close>

text \<open>
  The scenarios are run through \<open>parse_file\<close> on a file object with the name \<open>f\<close> that
  holds the text, with a budget of 30. The values of \<open>NUMBER\<close> tokens stay the matched
  text: nothing in the tokenizer or the parser converts them.
\<close>

lemma parse_m1_crv:
  assumes "lexes m ''m1 crv\<newline>'' [(0, 2, NAME), (3, 6, NAME), (6, 7, NEWLINE)]"
  shows "parse_file m 30 \<lparr>name = Some ''f'', buffer = ''m1 crv\<newline>''\<rparr> =
     Inr (OptocadScript [OptocadCommand (Str ''m1'') (PyList [Str ''crv'']) (PyDict []) (PyList [])])"
  using assms
  by (simp add: lexes_def parser_eval tokenizer_eval numeral_2_eq_2 [symmetric]
      cong: bind_result_cong bind_error_cong and_then_cong and_when_cong or_else_cong)

lemma parse_m1_crx:
  assumes "lexes m ''m1 crx\<newline>'' [(0, 2, NAME), (3, 6, NAME), (6, 7, NEWLINE)]"
  shows "parse_file m 30 \<lparr>name = Some ''f'', buffer = ''m1 crx\<newline>''\<rparr> =
     Inl (OptocadSyntaxError ''syntax error'' ''f'' 1 7 (Some ''\<newline>'') 1 8)"
  using assms
  by (simp add: lexes_def parser_eval tokenizer_eval numeral_2_eq_2 [symmetric]
      cong: bind_result_cong bind_error_cong and_then_cong and_when_cong or_else_cong)

text \<open>
  Claim C2 (the code departs from it). For the line \<open>m1 crv\<close> the parser returns one
  command whose only positional value is the action string \<open>crv\<close>, as claimed. For the
  line \<open>m1 crx\<close> the action alternative fails, but \<open>expr4\<close> has no alternative for a
  \<open>NAME\<close> (its docstring says that names are allowed there): no production accepts
  \<open>crx\<close>, \<open>start\<close> returns \<open>None\<close>, and the parse ends in the generic syntax error,
  located at the last token read.
\<close>

theorem name_outside_motion_codes_is_syntax_error:
  assumes "lexes m ''m1 crv\<newline>'' [(0, 2, NAME), (3, 6, NAME), (6, 7, NEWLINE)]"
      and "lexes m ''m1 crx\<newline>'' [(0, 2, NAME), (3, 6, NAME), (6, 7, NEWLINE)]"
  shows "parse_file m 30 \<lparr>name = Some ''f'', buffer = ''m1 crv\<newline>''\<rparr> =
     Inr (OptocadScript [OptocadCommand (Str ''m1'') (PyList [Str ''crv'']) (PyDict []) (PyList [])]) \<and>
   parse_file m 30 \<lparr>name = Some ''f'', buffer = ''m1 crx\<newline>''\<rparr> =
     Inl (OptocadSyntaxError ''syntax error'' ''f'' 1 7 (Some ''\<newline>'') 1 8)"
  using parse_m1_crv [OF assms(1)] parse_m1_crx [OF assms(2)] by (rule conjI)

theorem name_outside_motion_codes_is_syntax_error_witness:
  "lexes example_matcher ''m1 crv\<newline>'' [(0, 2, NAME), (3, 6, NAME), (6, 7, NEWLINE)] \<and>
   lexes example_matcher ''m1 crx\<newline>'' [(0, 2, NAME), (3, 6, NAME), (6, 7, NEWLINE)] \<and>
   parse_file example_matcher 30 \<lparr>name = Some ''f'', buffer = ''m1 crv\<newline>''\<rparr> =
     Inr (OptocadScript [OptocadCommand (Str ''m1'') (PyList [Str ''crv'']) (PyDict []) (PyList [])]) \<and>
   parse_file example_matcher 30 \<lparr>name = Some ''f'', buffer = ''m1 crx\<newline>''\<rparr> =
     Inl (OptocadSyntaxError ''syntax error'' ''f'' 1 7 (Some ''\<newline>'') 1 8)"
proof -
  have h1: "lexes example_matcher ''m1 crv\<newline>'' [(0, 2, NAME), (3, 6, NAME), (6, 7, NEWLINE)]"
    by (simp add: lexes_def matcher_eval)
  have h2: "lexes example_matcher ''m1 crx\<newline>'' [(0, 2, NAME), (3, 6, NAME), (6, 7, NEWLINE)]"
    by (simp add: lexes_def matcher_eval)
  from h1 h2 name_outside_motion_codes_is_syntax_error [OF h1 h2] show ?thesis by simp
qed

lemma parse_m1_1_plus_2:
  assumes "lexes m ''m1 1\<newline>'' [(0, 2, NAME), (3, 4, NUMBER), (4, 5, NEWLINE)]"
      and "lexes m ''+ 2\<newline>'' [(0, 1, PLUS), (2, 3, NUMBER), (3, 4, NEWLINE)]"
  shows "parse_file m 30 \<lparr>name = Some ''f'', buffer = ''m1 1\<newline>'' @ ''+ 2\<newline>''\<rparr> =
     Inr (OptocadScript [OptocadCommand (Str ''m1'') (PyList [Str ''1'']) (PyDict []) (PyList [OptocadSecondarySurfaceCommand (PyList [Str ''2'']) (PyDict [])])])"
  using assms
  by (simp add: lexes_def parser_eval tokenizer_eval numeral_2_eq_2 [symmetric]
      cong: bind_result_cong bind_error_cong and_then_cong and_when_cong or_else_cong)

text \<open>
  Claim C3 (the code departs from it). For the two lines \<open>m1 1\<close> and \<open>+ 2\<close> given as a
  string, \<open>parse\<close> returns no script: it raises \<open>AttributeError\<close>, for every matcher and
  every budget, because the \<open>StringIO\<close> it builds has no \<open>name\<close>. Given the same text in
  a named file object, \<open>parse_file\<close> returns a script with exactly one command, with
  directive \<open>m1\<close>, whose \<open>secondary_surfaces\<close> holds exactly one secondary surface
  command, so the \<open>+\<close> line is attached to the last command and not to the script; but
  the positional values are the strings \<open>"1"\<close> and \<open>"2"\<close>, the text of the \<open>NUMBER\<close>
  tokens, and not the numbers 1 and 2.
\<close>

theorem secondary_surface_text_raises_or_keeps_strings:
  assumes "lexes m ''m1 1\<newline>'' [(0, 2, NAME), (3, 4, NUMBER), (4, 5, NEWLINE)]"
      and "lexes m ''+ 2\<newline>'' [(0, 1, PLUS), (2, 3, NUMBER), (3, 4, NEWLINE)]"
  shows "parse m n (''m1 1\<newline>'' @ ''+ 2\<newline>'') = Inl (AttributeError ''name'') \<and>
   parse_file m 30 \<lparr>name = Some ''f'', buffer = ''m1 1\<newline>'' @ ''+ 2\<newline>''\<rparr> =
     Inr (OptocadScript [OptocadCommand (Str ''m1'') (PyList [Str ''1'']) (PyDict []) (PyList [OptocadSecondarySurfaceCommand (PyList [Str ''2'']) (PyDict [])])])"
  using parse_m1_1_plus_2 [OF assms]
  by (simp add: parse_def parse_file_def StringIO_def)

theorem secondary_surface_text_raises_or_keeps_strings_witness:
  "lexes example_matcher ''m1 1\<newline>'' [(0, 2, NAME), (3, 4, NUMBER), (4, 5, NEWLINE)] \<and>
   lexes example_matcher ''+ 2\<newline>'' [(0, 1, PLUS), (2, 3, NUMBER), (3, 4, NEWLINE)] \<and>
   parse example_matcher 30 (''m1 1\<newline>'' @ ''+ 2\<newline>'') = Inl (AttributeError ''name'') \<and>
   parse_file example_matcher 30 \<lparr>name = Some ''f'', buffer = ''m1 1\<newline>'' @ ''+ 2\<newline>''\<rparr> =
     Inr (OptocadScript [OptocadCommand (Str ''m1'') (PyList [Str ''1'']) (PyDict []) (PyList [OptocadSecondarySurfaceCommand (PyList [Str ''2'']) (PyDict [])])])"
proof -
  have h1: "lexes example_matcher ''m1 1\<newline>'' [(0, 2, NAME), (3, 4, NUMBER), (4, 5, NEWLINE)]"
    by (simp add: lexes_def matcher_eval)
  have h2: "lexes example_matcher ''+ 2\<newline>'' [(0, 1, PLUS), (2, 3, NUMBER), (3, 4, NEWLINE)]"
    by (simp add: lexes_def matcher_eval)
  from h1 h2 secondary_surface_text_raises_or_keeps_strings [OF h1 h2, of 30]
  show ?thesis by simp
qed

text \<open>
  Claim C4 (the code departs from it). For the line \<open>+ 1\<close> with no command before it
  the \<open>IndexError\<close> of \<open>self.optocad_script[-1]\<close> is caught, but the handler reads
  \<open>self._tokenizer.lineno\<close> while building the syntax error, and the tokenizer has no
  such attribute: the parse ends in \<open>AttributeError\<close>, not in the located syntax error
  with the message about the missing primary surface.
\<close>

theorem secondary_surface_without_primary_raises_AttributeError:
  assumes "lexes m ''+ 1\<newline>'' [(0, 1, PLUS), (2, 3, NUMBER), (3, 4, NEWLINE)]"
  shows "parse_file m 30 \<lparr>name = Some ''f'', buffer = ''+ 1\<newline>''\<rparr> = Inl (AttributeError ''lineno'')"
  using assms
  by (simp add: lexes_def parser_eval tokenizer_eval numeral_2_eq_2 [symmetric]
      cong: bind_result_cong bind_error_cong and_then_cong and_when_cong or_else_cong)

theorem secondary_surface_without_primary_raises_AttributeError_witness:
  "lexes example_matcher ''+ 1\<newline>'' [(0, 1, PLUS), (2, 3, NUMBER), (3, 4, NEWLINE)] \<and>
   parse_file example_matcher 30 \<lparr>name = Some ''f'', buffer = ''+ 1\<newline>''\<rparr> = Inl (AttributeError ''lineno'')"
proof -
  have h1: "lexes example_matcher ''+ 1\<newline>'' [(0, 1, PLUS), (2, 3, NUMBER), (3, 4, NEWLINE)]"
    by (simp add: lexes_def matcher_eval)
  from h1 secondary_surface_without_primary_raises_AttributeError [OF h1] show ?thesis by simp
qed

text \<open>
  Claim C5 (the code departs from it). For the line \<open>m1 x=\<close> the rule \<open>key_value\<close>
  reaches its \<open>raise\<close> statement, but the arguments of the syntax error read
  \<open>self._tokenizer.lineno\<close>, which does not exist: the parse ends in \<open>AttributeError\<close>,
  not in a located syntax error with the message \<open>missing value\<close>.
\<close>

theorem missing_value_raises_AttributeError:
  assumes "lexes m ''m1 x=\<newline>'' [(0, 2, NAME), (3, 4, NAME), (4, 5, EQUALS), (5, 6, NEWLINE)]"
  shows "parse_file m 30 \<lparr>name = Some ''f'', buffer = ''m1 x=\<newline>''\<rparr> = Inl (AttributeError ''lineno'')"
  using assms
  by (simp add: lexes_def parser_eval tokenizer_eval numeral_2_eq_2 [symmetric]
      cong: bind_result_cong bind_error_cong and_then_cong and_when_cong or_else_cong)

theorem missing_value_raises_AttributeError_witness:
  "lexes example_matcher ''m1 x=\<newline>'' [(0, 2, NAME), (3, 4, NAME), (4, 5, EQUALS), (5, 6, NEWLINE)] \<and>
   parse_file example_matcher 30 \<lparr>name = Some ''f'', buffer = ''m1 x=\<newline>''\<rparr> = Inl (AttributeError ''lineno'')"
proof -
  have h1: "lexes example_matcher ''m1 x=\<newline>'' [(0, 2, NAME), (3, 4, NAME), (4, 5, EQUALS), (5, 6, NEWLINE)]"
    by (simp add: lexes_def matcher_eval)
  from h1 missing_value_raises_AttributeError [OF h1] show ?thesis by simp
qed

text \<open>
  Claim C7 (the code departs from it). For the line \<open>m1 01\<close>, lexed as the two
  \<open>NUMBER\<close> tokens \<open>0\<close> and \<open>1\<close>, \<open>expr4\<close> refuses the first number and calls
  \<open>invalid_expr4\<close>. The token values are strings, so the test for two \<open>int\<close> values
  fails and the leading-zeros branch is never taken; and either branch calls the
  constructor of the syntax error with three arguments where five are required. The
  parse ends in \<open>TypeError\<close>, not in a located syntax error.
\<close>

theorem adjacent_numbers_raise_TypeError:
  assumes "lexes m ''m1 01\<newline>'' [(0, 2, NAME), (3, 4, NUMBER), (4, 5, NUMBER), (5, 6, NEWLINE)]"
  shows "parse_file m 30 \<lparr>name = Some ''f'', buffer = ''m1 01\<newline>''\<rparr> =
     Inl (TypeError ''__init__() missing 2 required positional arguments: index and text'')"
  using assms
  by (simp add: lexes_def parser_eval tokenizer_eval numeral_2_eq_2 [symmetric]
      cong: bind_result_cong bind_error_cong and_then_cong and_when_cong or_else_cong)

theorem adjacent_numbers_raise_TypeError_witness:
  "lexes example_matcher ''m1 01\<newline>'' [(0, 2, NAME), (3, 4, NUMBER), (4, 5, NUMBER), (5, 6, NEWLINE)] \<and>
   parse_file example_matcher 30 \<lparr>name = Some ''f'', buffer = ''m1 01\<newline>''\<rparr> =
     Inl (TypeError ''__init__() missing 2 required positional arguments: index and text'')"
proof -
  have h1: "lexes example_matcher ''m1 01\<newline>'' [(0, 2, NAME), (3, 4, NUMBER), (4, 5, NUMBER), (5, 6, NEWLINE)]"
    by (simp add: lexes_def matcher_eval)
  from h1 adjacent_numbers_raise_TypeError [OF h1] show ?thesis by simp
qed

section \<open>Keyword arguments\<close>

lemma map_of_dict_set: "map_of (dict_set d k v) = (map_of d)(k \<mapsto> v)"
  by (induction d) (auto simp: fun_upd_twist)

lemma keys_dict_set:
  "map fst (dict_set d k v) = (if k \<in> set (map fst d) then map fst d else map fst d @ [k])"
  by (induction d) (auto simp: rev_image_eqI)

lemma distinct_dict_set: "distinct (map fst d) \<Longrightarrow> distinct (map fst (dict_set d k v))"
  by (simp add: keys_dict_set)

lemma map_add_upd_left: "k \<notin> dom m2 \<Longrightarrow> m1(k \<mapsto> v) ++ m2 = m1 ++ m2(k \<mapsto> v)"
  by (rule ext) (auto simp: map_add_def split: option.splits)

lemma map_of_dict_merge:
  "distinct (map fst d2) \<Longrightarrow> map_of (dict_merge d1 d2) = map_of d1 ++ map_of d2"
proof (induction d2 arbitrary: d1)
  case Nil
  then show ?case by (simp add: dict_merge_def)
next
  case (Cons item d2)
  obtain k v where item: "item = (k, v)" by (cases item)
  from Cons.prems item have fresh: "k \<notin> dom (map_of d2)" and rest: "distinct (map fst d2)"
    by (auto simp: dom_map_of_conv_image_fst)
  have "map_of (dict_merge d1 (item # d2)) = map_of (dict_merge (dict_set d1 k v) d2)"
    by (simp add: dict_merge_def item)
  also have "\<dots> = map_of (dict_set d1 k v) ++ map_of d2"
    by (rule Cons.IH [OF rest])
  also have "\<dots> = map_of d1 ++ map_of (item # d2)"
    by (simp add: map_of_dict_set item map_add_upd_left [OF fresh])
  finally show ?case .
qed

lemma distinct_dict_merge:
  "distinct (map fst d1) \<Longrightarrow> distinct (map fst (dict_merge d1 d2))"
  unfolding dict_merge_def
  by (induction d2 arbitrary: d1) (auto simp: distinct_dict_set)

lemma later_key_wins:
  assumes "distinct (map fst d2)" and "map_of d2 k = Some v"
  shows "map_of (dict_merge d1 d2) k = Some v"
  using assms by (simp add: map_of_dict_merge)


lemma parse_kwargs_x_y:
  assumes "lexes m ''m1 x=1, y=2\<newline>'' [(0, 2, NAME), (3, 4, NAME), (4, 5, EQUALS), (5, 6, NUMBER), (6, 7, COMMA), (8, 9, NAME), (9, 10, EQUALS), (10, 11, NUMBER), (11, 12, NEWLINE)]"
  shows "parse_file m 30 \<lparr>name = Some ''f'', buffer = ''m1 x=1, y=2\<newline>''\<rparr> =
     Inr (OptocadScript [OptocadCommand (Str ''m1'') (PyList []) (PyDict [(Str ''x'', Str ''1''), (Str ''y'', Str ''2'')]) (PyList [])])"
  using assms
  by (simp add: lexes_def parser_eval tokenizer_eval numeral_2_eq_2 [symmetric]
      cong: bind_result_cong bind_error_cong and_then_cong and_when_cong or_else_cong)

lemma parse_kwargs_x_x:
  assumes "lexes m ''m1 x=1, x=2\<newline>'' [(0, 2, NAME), (3, 4, NAME), (4, 5, EQUALS), (5, 6, NUMBER), (6, 7, COMMA), (8, 9, NAME), (9, 10, EQUALS), (10, 11, NUMBER), (11, 12, NEWLINE)]"
  shows "parse_file m 30 \<lparr>name = Some ''f'', buffer = ''m1 x=1, x=2\<newline>''\<rparr> =
     Inr (OptocadScript [OptocadCommand (Str ''m1'') (PyList []) (PyDict [(Str ''x'', Str ''2'')]) (PyList [])])"
  using assms
  by (simp add: lexes_def parser_eval tokenizer_eval numeral_2_eq_2 [symmetric]
      cong: bind_result_cong bind_error_cong and_then_cong and_when_cong or_else_cong)

text \<open>
  Claim C6 (the code departs from it). For the line \<open>m1 x=1, y=2\<close> given as a string,
  \<open>parse\<close> returns no command: it raises \<open>AttributeError\<close>, for every matcher and every
  budget, because the \<open>StringIO\<close> it builds has no \<open>name\<close>. Given the same text in a
  named file object, \<open>parse_file\<close> returns exactly one command with no positional values
  and the keyword items \<open>x\<close>, \<open>y\<close> in that order, but their values are the strings
  \<open>"1"\<close> and \<open>"2"\<close>, the text of the \<open>NUMBER\<close> tokens, and not the numbers 1 and 2.
  For the line \<open>m1 x=1, x=2\<close> the only item left is \<open>x\<close> with the later value, again as
  a string.
\<close>

theorem kwargs_text_raises_or_keeps_strings:
  assumes "lexes m ''m1 x=1, y=2\<newline>'' [(0, 2, NAME), (3, 4, NAME), (4, 5, EQUALS), (5, 6, NUMBER), (6, 7, COMMA), (8, 9, NAME), (9, 10, EQUALS), (10, 11, NUMBER), (11, 12, NEWLINE)]"
      and "lexes m ''m1 x=1, x=2\<newline>'' [(0, 2, NAME), (3, 4, NAME), (4, 5, EQUALS), (5, 6, NUMBER), (6, 7, COMMA), (8, 9, NAME), (9, 10, EQUALS), (10, 11, NUMBER), (11, 12, NEWLINE)]"
  shows "parse m n ''m1 x=1, y=2\<newline>'' = Inl (AttributeError ''name'') \<and>
   parse_file m 30 \<lparr>name = Some ''f'', buffer = ''m1 x=1, y=2\<newline>''\<rparr> =
     Inr (OptocadScript [OptocadCommand (Str ''m1'') (PyList []) (PyDict [(Str ''x'', Str ''1''), (Str ''y'', Str ''2'')]) (PyList [])]) \<and>
   parse_file m 30 \<lparr>name = Some ''f'', buffer = ''m1 x=1, x=2\<newline>''\<rparr> =
     Inr (OptocadScript [OptocadCommand (Str ''m1'') (PyList []) (PyDict [(Str ''x'', Str ''2'')]) (PyList [])])"
  using parse_kwargs_x_y [OF assms(1)] parse_kwargs_x_x [OF assms(2)]
  by (simp add: parse_def parse_file_def StringIO_def)

theorem kwargs_text_raises_or_keeps_strings_witness:
  "lexes example_matcher ''m1 x=1, y=2\<newline>'' [(0, 2, NAME), (3, 4, NAME), (4, 5, EQUALS), (5, 6, NUMBER), (6, 7, COMMA), (8, 9, NAME), (9, 10, EQUALS), (10, 11, NUMBER), (11, 12, NEWLINE)] \<and>
   lexes example_matcher ''m1 x=1, x=2\<newline>'' [(0, 2, NAME), (3, 4, NAME), (4, 5, EQUALS), (5, 6, NUMBER), (6, 7, COMMA), (8, 9, NAME), (9, 10, EQUALS), (10, 11, NUMBER), (11, 12, NEWLINE)] \<and>
   parse example_matcher 30 ''m1 x=1, y=2\<newline>'' = Inl (AttributeError ''name'') \<and>
   parse_file example_matcher 30 \<lparr>name = Some ''f'', buffer = ''m1 x=1, y=2\<newline>''\<rparr> =
     Inr (OptocadScript [OptocadCommand (Str ''m1'') (PyList []) (PyDict [(Str ''x'', Str ''1''), (Str ''y'', Str ''2'')]) (PyList [])]) \<and>
   parse_file example_matcher 30 \<lparr>name = Some ''f'', buffer = ''m1 x=1, x=2\<newline>''\<rparr> =
     Inr (OptocadScript [OptocadCommand (Str ''m1'') (PyList []) (PyDict [(Str ''x'', Str ''2'')]) (PyList [])])"
proof -
  have h1: "lexes example_matcher ''m1 x=1, y=2\<newline>'' [(0, 2, NAME), (3, 4, NAME), (4, 5, EQUALS), (5, 6, NUMBER), (6, 7, COMMA), (8, 9, NAME), (9, 10, EQUALS), (10, 11, NUMBER), (11, 12, NEWLINE)]"
    by (simp add: lexes_def matcher_eval)
  have h2: "lexes example_matcher ''m1 x=1, x=2\<newline>'' [(0, 2, NAME), (3, 4, NAME), (4, 5, EQUALS), (5, 6, NUMBER), (6, 7, COMMA), (8, 9, NAME), (9, 10, EQUALS), (10, 11, NUMBER), (11, 12, NEWLINE)]"
    by (simp add: lexes_def matcher_eval)
  from h1 h2 kwargs_text_raises_or_keeps_strings [OF h1 h2, of 30]
  show ?thesis by simp
qed

section \<open>The end of a lexer run\<close>

text \<open>Reading a line, and what it leaves of the text.\<close>

lemma pending_text_index: "pending_text (st\<lparr>t_index := i\<rparr>) = pending_text st"
  by (simp add: pending_text_def)

lemma pending_text_same:
  "line st' = line st \<and> fobj st' = fobj st \<Longrightarrow> pending_text st' = pending_text st"
  by (simp add: pending_text_def)

lemma pending_text_at_end: "buffer (fobj st) = [] \<Longrightarrow> pending_text st = line st"
  by (simp add: pending_text_def)

lemma readline_empty: "fst (readline f) = [] \<longleftrightarrow> buffer f = []"
proof (cases "dropWhile (\<lambda>c. c \<noteq> CHR 0x0A) (buffer f)")
  case Nil
  show ?thesis unfolding readline_def Nil by simp
next
  case (Cons nl rest)
  then have "buffer f \<noteq> []" by auto
  then show ?thesis unfolding readline_def Cons by simp
qed

lemma readline_split: "fst (readline f) @ buffer (snd (readline f)) = buffer f"
proof (cases "dropWhile (\<lambda>c. c \<noteq> CHR 0x0A) (buffer f)")
  case Nil
  show ?thesis unfolding readline_def Nil by simp
next
  case (Cons nl rest)
  have "takeWhile (\<lambda>c. c \<noteq> CHR 0x0A) (buffer f) @ dropWhile (\<lambda>c. c \<noteq> CHR 0x0A) (buffer f) =
      buffer f"
    by (rule takeWhile_dropWhile_id)
  then have "takeWhile (\<lambda>c. c \<noteq> CHR 0x0A) (buffer f) @ nl # rest = buffer f"
    unfolding Cons .
  then show ?thesis unfolding readline_def Cons by simp
qed

lemma implicit_newline_append: "r \<noteq> [] \<Longrightarrow> implicit_newline (l @ r) = implicit_newline r"
  by (simp add: implicit_newline_def)

lemma pending_text_next_line:
  assumes "fst (readline (fobj st)) \<noteq> []"
  shows "implicit_newline
           (pending_text (st\<lparr>previous_line := line st,
                             line := fst (readline (fobj st)),
                             fobj := snd (readline (fobj st)),
                             script := script st @ [fst (readline (fobj st))],
                             t_index := 0,
                             t_taboffset := 0\<rparr>)) =
         implicit_newline (pending_text st)"
proof -
  from assms have nonempty: "buffer (fobj st) \<noteq> []" by (simp add: readline_empty)
  show ?thesis
  proof (cases "buffer (snd (readline (fobj st))) = []")
    case True
    with readline_split [of "fobj st"] have "fst (readline (fobj st)) = buffer (fobj st)" by simp
    with True nonempty show ?thesis by (simp add: pending_text_def)
  next
    case False
    from implicit_newline_append [OF False, of "fst (readline (fobj st))"]
    have "implicit_newline (buffer (fobj st)) = implicit_newline (buffer (snd (readline (fobj st))))"
      by (simp add: readline_split)
    with False nonempty show ?thesis by (simp add: pending_text_def)
  qed
qed

lemma remaining_next_line:
  "remaining (st\<lparr>previous_line := line st,
                 line := fst (readline (fobj st)),
                 fobj := snd (readline (fobj st)),
                 script := script st @ [fst (readline (fobj st))],
                 t_index := 0,
                 t_taboffset := 0\<rparr>) \<le> remaining st"
proof -
  have "length (fst (readline (fobj st))) + length (buffer (snd (readline (fobj st)))) =
      length (buffer (fobj st))"
    using readline_split [of "fobj st"] by (metis length_append)
  then show ?thesis by (simp add: remaining_def)
qed

text \<open>One token: the callbacks, a match, no match, the end of the file.\<close>

lemma token_callback_keeps:
  assumes "token_callback tok st = Inr st'"
  shows "line st' = line st \<and> fobj st' = fobj st"
  using assms
  by (auto simp: token_callback_def on_NEWLINE_def on_LBRACKET_def on_RBRACKET_def
      on_LPAREN_def on_RPAREN_def split: if_splits option.splits)

lemma token_callback_error:
  assumes "token_callback tok st = Inl e" and "value tok \<noteq> None"
  shows "is_syntax_error e"
  using assms
  by (auto simp: token_callback_def on_NEWLINE_def on_LBRACKET_def on_RBRACKET_def
      on_LPAREN_def on_RPAREN_def raise_error_def is_syntax_error_def
      split: if_splits option.splits)

lemma matched_token:
  assumes "matched end token_type st = Inr (otok, st')"
  shows "otok = Some (new_token end token_type st) \<and> resume st' = InLine \<and>
         line st' = line st \<and> fobj st' = fobj st \<and> t_index st' = end"
proof (cases "token_callback (new_token end token_type st)
                (st\<lparr>t_taboffset := t_taboffset st + tab_shift (matched_text end st)\<rparr>)")
  case (Inl e)
  with assms show ?thesis by (simp add: matched_def)
next
  case (Inr st1)
  from token_callback_keeps [OF Inr] have "line st1 = line st \<and> fobj st1 = fobj st" by simp
  with assms Inr show ?thesis by (auto simp: matched_def)
qed

lemma matched_error:
  assumes "matched end token_type st = Inl e"
  shows "is_syntax_error e"
proof (cases "token_callback (new_token end token_type st)
                (st\<lparr>t_taboffset := t_taboffset st + tab_shift (matched_text end st)\<rparr>)")
  case (Inl e')
  have "value (new_token end token_type st) \<noteq> None" by (simp add: new_token_def)
  from token_callback_error [OF Inl this] assms Inl show ?thesis by (simp add: matched_def)
next
  case (Inr st1)
  with assms show ?thesis by (simp add: matched_def)
qed

lemma unmatched_error:
  assumes "t_index st < length (line st)"
  shows "is_syntax_error (unmatched st)"
proof -
  from assms obtain c cs where "drop (t_index st) (line st) = c # cs"
    by (cases "drop (t_index st) (line st)") auto
  then show ?thesis
    by (simp add: unmatched_def raise_lexing_error_def raise_error_def is_syntax_error_def)
qed

lemma after_lines_token:
  assumes "after_lines st = Inr (otok, st')"
  shows "\<exists>tok. otok = Some tok \<and>
     (resume st' = AfterImplicitNewline \<and> type tok = NEWLINE \<and> value tok = None \<and>
        implicit_newline (previous_line st) \<or>
      resume st' = AfterEndmarker \<and> type tok = ENDMARKER \<and> value tok = None \<and>
        \<not> implicit_newline (previous_line st))"
  using assms by (auto simp: after_lines_def split: list.splits option.splits if_splits)

lemma after_lines_resume:
  assumes "after_lines st = Inr (otok, st')"
  shows "resume st' \<noteq> InLine"
  using assms by (auto simp: after_lines_def split: list.splits option.splits if_splits)

lemma after_lines_error:
  assumes "after_lines st = Inl e"
  shows "is_syntax_error e"
  using assms
  by (auto simp: after_lines_def raise_error_def is_syntax_error_def
      split: list.splits option.splits if_splits)

text \<open>
  One resumption of the generator up to its next \<open>yield\<close>: it yields a matched token and
  stays inside the lines, or the implicit \<open>NEWLINE\<close> when one is due, or the
  \<open>ENDMARKER\<close> when none is due; every exception is a located syntax error; and a
  matched token consumes text when every match is non-empty.
\<close>

lemma scan_step:
  assumes "scan m st = Inr (otok, st')"
  shows "\<exists>tok. otok = Some tok \<and>
     (resume st' = InLine \<and> value tok \<noteq> None \<and>
        implicit_newline (pending_text st') = implicit_newline (pending_text st) \<or>
      resume st' = AfterImplicitNewline \<and> type tok = NEWLINE \<and> value tok = None \<and>
        implicit_newline (pending_text st) \<or>
      resume st' = AfterEndmarker \<and> type tok = ENDMARKER \<and> value tok = None \<and>
        \<not> implicit_newline (pending_text st))"
  using assms
proof (induction m st rule: scan.induct)
  case (1 m st)
  note unfold = scan.simps [of m st]
  show ?case
  proof (cases "t_index st < length (line st)")
    case inside: True
    show ?thesis
    proof (cases "line st ! t_index st \<in> set IGNORE")
      case True
      with "1.prems" inside have "scan m (st\<lparr>t_index := t_index st + 1\<rparr>) = Inr (otok, st')"
        by (simp add: unfold)
      from "1.IH"(1) [OF inside True this] show ?thesis unfolding pending_text_index .
    next
      case False
      show ?thesis
      proof (cases "m (line st) (t_index st)")
        case None
        with "1.prems" inside False show ?thesis by (simp add: unfold)
      next
        case (Some p)
        obtain e ty where p: "p = (e, ty)" by (cases p)
        from "1.prems" inside False Some p have "matched e ty st = Inr (otok, st')"
          by (simp add: unfold)
        note tok = matched_token [OF this]
        from tok have "line st' = line st \<and> fobj st' = fobj st" by simp
        then have "pending_text st' = pending_text st" by (rule pending_text_same)
        moreover from tok have "otok = Some (new_token e ty st)" and "resume st' = InLine"
          by simp_all
        moreover have "value (new_token e ty st) \<noteq> None" by (simp add: new_token_def)
        ultimately show ?thesis by simp
      qed
    qed
  next
    case False
    show ?thesis
    proof (cases "fst (readline (fobj st)) = []")
      case True
      with "1.prems" False
      have "after_lines (st\<lparr>previous_line := line st, line := []\<rparr>) = Inr (otok, st')"
        by (simp add: unfold)
      then have eof: "\<exists>tok. otok = Some tok \<and>
          (resume st' = AfterImplicitNewline \<and> type tok = NEWLINE \<and> value tok = None \<and>
             implicit_newline (line st) \<or>
           resume st' = AfterEndmarker \<and> type tok = ENDMARKER \<and> value tok = None \<and>
             \<not> implicit_newline (line st))"
        using after_lines_token [of "st\<lparr>previous_line := line st, line := []\<rparr>" otok st']
        by simp
      from True have "pending_text st = line st"
        by (simp add: readline_empty pending_text_at_end)
      with eof show ?thesis by (elim exE conjE disjE) simp_all
    next
      case more: False
      with "1.prems" False have "scan m (st\<lparr>previous_line := line st,
                         line := fst (readline (fobj st)),
                         fobj := snd (readline (fobj st)),
                         script := script st @ [fst (readline (fobj st))],
                         t_index := 0,
                         t_taboffset := 0\<rparr>) = Inr (otok, st')"
        by (simp add: unfold)
      from "1.IH"(2) [OF False more this] show ?thesis
        unfolding pending_text_next_line [OF more] .
    qed
  qed
qed

lemma scan_error:
  assumes "scan m st = Inl e"
  shows "is_syntax_error e"
  using assms
proof (induction m st rule: scan.induct)
  case (1 m st)
  note unfold = scan.simps [of m st]
  show ?case
  proof (cases "t_index st < length (line st)")
    case inside: True
    show ?thesis
    proof (cases "line st ! t_index st \<in> set IGNORE")
      case True
      with "1.prems" inside have "scan m (st\<lparr>t_index := t_index st + 1\<rparr>) = Inl e"
        by (simp add: unfold)
      from "1.IH"(1) [OF inside True this] show ?thesis .
    next
      case False
      show ?thesis
      proof (cases "m (line st) (t_index st)")
        case None
        with "1.prems" inside False have "e = unmatched st" by (simp add: unfold)
        with unmatched_error [OF inside] show ?thesis by simp
      next
        case (Some p)
        obtain stop ty where p: "p = (stop, ty)" by (cases p)
        from "1.prems" inside False Some p have "matched stop ty st = Inl e"
          by (simp add: unfold)
        then show ?thesis by (rule matched_error)
      qed
    qed
  next
    case False
    show ?thesis
    proof (cases "fst (readline (fobj st)) = []")
      case True
      with "1.prems" False
      have "after_lines (st\<lparr>previous_line := line st, line := []\<rparr>) = Inl e"
        by (simp add: unfold)
      then show ?thesis by (rule after_lines_error)
    next
      case more: False
      with "1.prems" False have "scan m (st\<lparr>previous_line := line st,
                         line := fst (readline (fobj st)),
                         fobj := snd (readline (fobj st)),
                         script := script st @ [fst (readline (fobj st))],
                         t_index := 0,
                         t_taboffset := 0\<rparr>) = Inl e"
        by (simp add: unfold)
      from "1.IH"(2) [OF False more this] show ?thesis .
    qed
  qed
qed

lemma scan_progress:
  assumes "\<forall>text i e t. m text i = Some (e, t) \<longrightarrow> i < e"
      and "scan m st = Inr (otok, st')"
      and "resume st' = InLine"
  shows "remaining st' < remaining st"
  using assms
proof (induction m st rule: scan.induct)
  case (1 m st)
  note unfold = scan.simps [of m st]
  show ?case
  proof (cases "t_index st < length (line st)")
    case inside: True
    show ?thesis
    proof (cases "line st ! t_index st \<in> set IGNORE")
      case True
      with "1.prems"(2) inside
      have "scan m (st\<lparr>t_index := t_index st + 1\<rparr>) = Inr (otok, st')"
        by (simp add: unfold)
      from "1.IH"(1) [OF inside True "1.prems"(1) this "1.prems"(3)] inside show ?thesis
        by (simp add: remaining_def)
    next
      case False
      show ?thesis
      proof (cases "m (line st) (t_index st)")
        case None
        with "1.prems"(2) inside False show ?thesis by (simp add: unfold)
      next
        case (Some p)
        obtain e ty where p: "p = (e, ty)" by (cases p)
        from Some p "1.prems"(1) have "t_index st < e" by blast
        moreover from "1.prems"(2) inside False Some p
        have "matched e ty st = Inr (otok, st')"
          by (simp add: unfold)
        note matched_token [OF this]
        ultimately show ?thesis using inside by (simp add: remaining_def)
      qed
    qed
  next
    case False
    show ?thesis
    proof (cases "fst (readline (fobj st)) = []")
      case True
      with "1.prems"(2) False
      have "after_lines (st\<lparr>previous_line := line st, line := []\<rparr>) = Inr (otok, st')"
        by (simp add: unfold)
      from after_lines_resume [OF this] "1.prems"(3) show ?thesis by simp
    next
      case more: False
      with "1.prems"(2) False have "scan m (st\<lparr>previous_line := line st,
                         line := fst (readline (fobj st)),
                         fobj := snd (readline (fobj st)),
                         script := script st @ [fst (readline (fobj st))],
                         t_index := 0,
                         t_taboffset := 0\<rparr>) = Inr (otok, st')"
        by (simp add: unfold)
      from "1.IH"(2) [OF False more "1.prems"(1) this "1.prems"(3)] remaining_next_line [of st]
      show ?thesis by simp
    qed
  qed
qed

text \<open>The whole run, by induction on the number of resumptions.\<close>

lemma run_shape_Cons: "value t \<noteq> None \<Longrightarrow> run_shape u (t # ts) = run_shape u ts"
  by (simp add: run_shape_def)

lemma run_shape_newline:
  assumes "type nl = NEWLINE" and "value nl = None"
      and "type em = ENDMARKER" and "value em = None"
  shows "run_shape True [nl, em]"
  using assms by (simp add: run_shape_def)

lemma run_shape_endmarker:
  assumes "type em = ENDMARKER" and "value em = None"
  shows "run_shape False [em]"
  using assms by (simp add: run_shape_def)

lemma is_syntax_error_fuel: "is_syntax_error e \<Longrightarrow> e \<noteq> OutOfFuel"
  by (auto simp: is_syntax_error_def)

lemma drain_after_endmarker: "resume st = AfterEndmarker \<Longrightarrow> drain (Suc n) m st = Inr []"
  by (simp add: tokenizer_next_def)

lemma drain_after_newline:
  assumes "resume st = AfterImplicitNewline"
  shows "drain (Suc (Suc n)) m st =
     Inr [\<lparr>lineno = t_lineno st + 1, start_index = 1, stop_index = 1, type = ENDMARKER,
            value = None\<rparr>]"
  using assms by (simp add: tokenizer_next_def)

lemma drain_after_endmarker_result:
  assumes "resume st = AfterEndmarker"
  shows "drain n m st = (if n = 0 then Inl OutOfFuel else Inr [])"
  using assms by (cases n) (simp_all add: tokenizer_next_def)

lemma drain_after_newline_result:
  assumes "resume st = AfterImplicitNewline"
  shows "drain n m st =
     (if n < 2 then Inl OutOfFuel
      else Inr [\<lparr>lineno = t_lineno st + 1, start_index = 1, stop_index = 1, type = ENDMARKER,
                  value = None\<rparr>])"
proof (cases n)
  case 0
  then show ?thesis by simp
next
  case (Suc k)
  with assms show ?thesis
    by (cases k) (simp_all add: tokenizer_next_def)
qed

lemma drain_Suc_scan:
  assumes "tokenizer_next m st = scan m st0"
  shows "drain (Suc n) m st =
     (case scan m st0 of
        Inl e \<Rightarrow> Inl e
      | Inr (None, st') \<Rightarrow> Inr []
      | Inr (Some tok, st') \<Rightarrow>
          (case drain n m st' of Inl e \<Rightarrow> Inl e | Inr toks \<Rightarrow> Inr (tok # toks)))"
  by (simp add: assms)

lemma tokenizer_next_inline: "resume st = InLine \<Longrightarrow> tokenizer_next m st = scan m st"
  by (simp add: tokenizer_next_def)

lemma drain_step_cases:
  assumes step: "tokenizer_next m st = scan m st0"
  obtains
    (raised) e where "drain (Suc n) m st = Inl e" and "is_syntax_error e"
  | (token) tok st' where "resume st' = InLine" and "value tok \<noteq> None"
      and "implicit_newline (pending_text st') = implicit_newline (pending_text st0)"
      and "scan m st0 = Inr (Some tok, st')"
      and "drain (Suc n) m st = (case drain n m st' of Inl e \<Rightarrow> Inl e | Inr toks \<Rightarrow> Inr (tok # toks))"
  | (newline) tok st' where "resume st' = AfterImplicitNewline" and "type tok = NEWLINE"
      and "value tok = None" and "implicit_newline (pending_text st0)"
      and "drain (Suc n) m st = (case drain n m st' of Inl e \<Rightarrow> Inl e | Inr toks \<Rightarrow> Inr (tok # toks))"
  | (endmarker) tok st' where "resume st' = AfterEndmarker" and "type tok = ENDMARKER"
      and "value tok = None" and "\<not> implicit_newline (pending_text st0)"
      and "drain (Suc n) m st = (case drain n m st' of Inl e \<Rightarrow> Inl e | Inr toks \<Rightarrow> Inr (tok # toks))"
proof (cases "scan m st0")
  case (Inl e)
  then have "drain (Suc n) m st = Inl e" by (simp add: step)
  moreover from Inl have "is_syntax_error e" by (rule scan_error)
  ultimately show ?thesis by (rule raised)
next
  case (Inr r)
  obtain otok st' where r: "r = (otok, st')" by (cases r)
  from Inr r have result: "scan m st0 = Inr (otok, st')" by simp
  from scan_step [OF result] obtain tok where otok: "otok = Some tok"
    and outcome: "resume st' = InLine \<and> value tok \<noteq> None \<and>
        implicit_newline (pending_text st') = implicit_newline (pending_text st0) \<or>
      resume st' = AfterImplicitNewline \<and> type tok = NEWLINE \<and> value tok = None \<and>
        implicit_newline (pending_text st0) \<or>
      resume st' = AfterEndmarker \<and> type tok = ENDMARKER \<and> value tok = None \<and>
        \<not> implicit_newline (pending_text st0)"
    by (elim exE conjE)
  from result otok have yielded: "scan m st0 = Inr (Some tok, st')" by simp
  then have rest: "drain (Suc n) m st = (case drain n m st' of Inl e \<Rightarrow> Inl e | Inr toks \<Rightarrow> Inr (tok # toks))"
    by (simp add: step)
  from outcome show ?thesis
  proof (elim disjE conjE)
    assume "resume st' = InLine" and "value tok \<noteq> None"
      and "implicit_newline (pending_text st') = implicit_newline (pending_text st0)"
    then show ?thesis using yielded rest by (rule token)
  next
    assume "resume st' = AfterImplicitNewline" and "type tok = NEWLINE"
      and "value tok = None" and "implicit_newline (pending_text st0)"
    then show ?thesis using rest by (rule newline)
  next
    assume "resume st' = AfterEndmarker" and "type tok = ENDMARKER"
      and "value tok = None" and "\<not> implicit_newline (pending_text st0)"
    then show ?thesis using rest by (rule endmarker)
  qed
qed

lemma drain_shape_step:
  assumes step: "tokenizer_next m st = scan m st0"
      and IH: "\<And>st' toks'. resume st' = InLine \<Longrightarrow> drain n m st' = Inr toks' \<Longrightarrow>
                 run_shape (implicit_newline (pending_text st')) toks'"
      and run: "drain (Suc n) m st = Inr toks"
  shows "run_shape (implicit_newline (pending_text st0)) toks"
  using step
proof (cases rule: drain_step_cases [where n = n])
  case (raised e)
  with run show ?thesis by simp
next
  case (token tok st')
  from run token(5) obtain ts where ts: "drain n m st' = Inr ts" and toks: "toks = tok # ts"
    by (cases "drain n m st'") auto
  from IH [OF token(1) ts] token(2) token(3) toks show ?thesis
    by (simp add: run_shape_Cons)
next
  case (newline tok st')
  from run newline(5) obtain ts where ts: "drain n m st' = Inr ts" and toks: "toks = tok # ts"
    by (cases "drain n m st'") auto
  from ts have "ts = [\<lparr>lineno = t_lineno st' + 1, start_index = 1, stop_index = 1,
                        type = ENDMARKER, value = None\<rparr>]"
    by (simp add: drain_after_newline_result [OF newline(1)] split: if_splits)
  with toks newline(2) newline(3) newline(4) show ?thesis
    by (simp add: run_shape_newline)
next
  case (endmarker tok st')
  from run endmarker(5) obtain ts where ts: "drain n m st' = Inr ts" and toks: "toks = tok # ts"
    by (cases "drain n m st'") auto
  from ts have "ts = []"
    by (simp add: drain_after_endmarker_result [OF endmarker(1)] split: if_splits)
  with toks endmarker(2) endmarker(3) endmarker(4) show ?thesis
    by (simp add: run_shape_endmarker)
qed

lemma drain_shape_inline:
  "resume st = InLine \<Longrightarrow> drain n m st = Inr toks \<Longrightarrow>
   run_shape (implicit_newline (pending_text st)) toks"
proof (induction n arbitrary: st toks)
  case 0
  then show ?case by simp
next
  case (Suc n)
  from Suc.prems(1) have "tokenizer_next m st = scan m st" by (rule tokenizer_next_inline)
  then show ?case using Suc.IH Suc.prems(2) by (rule drain_shape_step)
qed

lemma drain_error_step:
  assumes step: "tokenizer_next m st = scan m st0"
      and IH: "\<And>st' e'. resume st' = InLine \<Longrightarrow> drain n m st' = Inl e' \<Longrightarrow>
                 e' = OutOfFuel \<or> is_syntax_error e'"
      and run: "drain (Suc n) m st = Inl e"
  shows "e = OutOfFuel \<or> is_syntax_error e"
  using step
proof (cases rule: drain_step_cases [where n = n])
  case (raised e')
  with run show ?thesis by simp
next
  case (token tok st')
  from run token(5) have "drain n m st' = Inl e"
    by (cases "drain n m st'") auto
  from IH [OF token(1) this] show ?thesis .
next
  case (newline tok st')
  from run newline(5) have "drain n m st' = Inl e"
    by (cases "drain n m st'") auto
  then show ?thesis
    by (simp add: drain_after_newline_result [OF newline(1)] split: if_splits)
next
  case (endmarker tok st')
  from run endmarker(5) have "drain n m st' = Inl e"
    by (cases "drain n m st'") auto
  then show ?thesis
    by (simp add: drain_after_endmarker_result [OF endmarker(1)] split: if_splits)
qed

lemma drain_error_inline:
  "resume st = InLine \<Longrightarrow> drain n m st = Inl e \<Longrightarrow> e = OutOfFuel \<or> is_syntax_error e"
proof (induction n arbitrary: st e)
  case 0
  then show ?case by simp
next
  case (Suc n)
  from Suc.prems(1) have "tokenizer_next m st = scan m st" by (rule tokenizer_next_inline)
  then show ?case using Suc.IH Suc.prems(2) by (rule drain_error_step)
qed

lemma drain_fuel_step:
  assumes progress: "\<forall>text i e t. m text i = Some (e, t) \<longrightarrow> i < e"
      and step: "tokenizer_next m st = scan m st0"
      and IH: "\<And>st'. resume st' = InLine \<Longrightarrow> remaining st' < n \<Longrightarrow>
                 drain (n + 2) m st' \<noteq> Inl OutOfFuel"
      and bound: "remaining st0 < Suc n"
  shows "drain (Suc n + 2) m st \<noteq> Inl OutOfFuel"
  using step
proof (cases rule: drain_step_cases [where n = "n + 2"])
  case (raised e)
  from raised(2) have "e \<noteq> OutOfFuel" by (rule is_syntax_error_fuel)
  with raised(1) show ?thesis by simp
next
  case (token tok st')
  from scan_progress [OF progress token(4) token(1)] bound have "remaining st' < n" by simp
  from IH [OF token(1) this] token(5) show ?thesis
    by (cases "drain (n + 2) m st'") auto
next
  case (newline tok st')
  from newline(5) show ?thesis
    by (simp add: drain_after_newline_result [OF newline(1)])
next
  case (endmarker tok st')
  from endmarker(5) show ?thesis
    by (simp add: drain_after_endmarker_result [OF endmarker(1)])
qed

lemma drain_fuel_inline:
  assumes progress: "\<forall>text i e t. m text i = Some (e, t) \<longrightarrow> i < e"
  shows "resume st = InLine \<Longrightarrow> remaining st < n \<Longrightarrow> drain (n + 2) m st \<noteq> Inl OutOfFuel"
proof (induction n arbitrary: st)
  case 0
  then show ?case by simp
next
  case (Suc n)
  from Suc.prems(1) have "tokenizer_next m st = scan m st" by (rule tokenizer_next_inline)
  with progress show ?case using Suc.IH Suc.prems(2) by (rule drain_fuel_step)
qed

lemma tokenizer_next_start:
  assumes "name f = Some nm"
  shows "tokenizer_next m (tokenize_file f) =
     scan m ((tokenize_file f)\<lparr>t_filename := nm, script := [], t_nesting := [], t_lineno := 1,
        t_index := 0, previous_line := [], line := []\<rparr>)"
  using assms by (simp add: tokenizer_next_def tokenize_file_def)

lemma pending_text_start:
  "pending_text ((tokenize_file f)\<lparr>t_filename := nm, script := [], t_nesting := [], t_lineno := 1,
        t_index := 0, previous_line := [], line := []\<rparr>) = buffer f"
  by (simp add: pending_text_def tokenize_file_def)

lemma remaining_start:
  "remaining ((tokenize_file f)\<lparr>t_filename := nm, script := [], t_nesting := [], t_lineno := 1,
        t_index := 0, previous_line := [], line := []\<rparr>) = length (buffer f)"
  by (simp add: remaining_def tokenize_file_def)

lemma drain_shape_start:
  assumes "name f = Some nm" and "drain n m (tokenize_file f) = Inr toks"
  shows "run_shape (implicit_newline (buffer f)) toks"
proof (cases n)
  case 0
  with assms(2) show ?thesis by simp
next
  case (Suc k)
  from assms(2) have run: "drain (Suc k) m (tokenize_file f) = Inr toks" by (simp add: Suc)
  from drain_shape_step
    [OF tokenizer_next_start [OF assms(1)] drain_shape_inline [where n = k and m = m] run]
  show ?thesis unfolding pending_text_start .
qed

lemma drain_error_start:
  assumes "name f = Some nm" and "drain n m (tokenize_file f) = Inl e"
  shows "e = OutOfFuel \<or> is_syntax_error e"
proof (cases n)
  case 0
  with assms(2) show ?thesis by simp
next
  case (Suc k)
  from assms(2) have run: "drain (Suc k) m (tokenize_file f) = Inl e" by (simp add: Suc)
  from drain_error_step
    [OF tokenizer_next_start [OF assms(1)] drain_error_inline [where n = k and m = m] run]
  show ?thesis .
qed

lemma drain_fuel_start:
  assumes progress: "\<forall>text i e t. m text i = Some (e, t) \<longrightarrow> i < e"
      and "name f = Some nm"
  shows "drain (length (buffer f) + 3) m (tokenize_file f) \<noteq> Inl OutOfFuel"
proof -
  have "remaining ((tokenize_file f)\<lparr>t_filename := nm, script := [], t_nesting := [], t_lineno := 1,
        t_index := 0, previous_line := [], line := []\<rparr>) < Suc (length (buffer f))"
    unfolding remaining_start by simp
  from drain_fuel_step [OF progress tokenizer_next_start [OF assms(2)]
      drain_fuel_inline [OF progress, where n = "length (buffer f)"] this]
  show ?thesis by (simp add: eval_nat_numeral)
qed

text \<open>Every match of the example matcher is non-empty.\<close>

lemma match_rules_positive:
  assumes "match_rules s = Some (n, t)"
  shows "0 < n"
proof (cases s)
  case Nil
  with assms show ?thesis
    by (simp add: match_rules_def literal_def split: if_splits)
next
  case (Cons c cs)
  have name_start: "is_name_start c \<Longrightarrow> is_name_char c" by (simp add: is_name_char_def)
  from assms show ?thesis unfolding Cons
    by (auto simp: match_rules_def literal_def name_start split: if_splits)
qed

lemma example_matcher_progress:
  "\<forall>text i e t. example_matcher text i = Some (e, t) \<longrightarrow> i < e"
proof (intro allI impI)
  fix s i e t
  assume "example_matcher s i = Some (e, t)"
  then obtain n where "match_rules (drop i s) = Some (n, t)" and "e = i + n"
    by (auto simp: example_matcher_def)
  with match_rules_positive [of "drop i s" n t] show "i < e" by simp
qed

text \<open>
  Claim C8 does not hold as stated. The text is a single opening parenthesis with no
  line terminator. The first resumption of the generator yields the \<open>LPAREN\<close> token;
  the second finds the nesting stack non-empty and raises the error for the unclosed
  parenthesis before the statements that yield the implicit \<open>NEWLINE\<close> and the
  \<open>ENDMARKER\<close>: the run emits neither.
\<close>

theorem unclosed_bracket_ends_run_without_endmarker:
  "map_sum id fst (tokenizer_next example_matcher (tokenize_file \<lparr>name = Some ''f'', buffer = ''(''\<rparr>)) =
     Inr (Some \<lparr>lineno = 1, start_index = 1, stop_index = 2, type = LPAREN,
                 value = Some ''(''\<rparr>) \<and>
   tokenizer_next example_matcher
     (snd (projr (tokenizer_next example_matcher (tokenize_file \<lparr>name = Some ''f'', buffer = ''(''\<rparr>)))) =
     Inl (OptocadSyntaxError (''unclosed '' @ quoted ''('') ''f'' 1 1 (Some ''('') 1 2) \<and>
   drain 5 example_matcher (tokenize_file \<lparr>name = Some ''f'', buffer = ''(''\<rparr>) =
     Inl (OptocadSyntaxError (''unclosed '' @ quoted ''('') ''f'' 1 1 (Some ''('') 1 2)"
proof -
  have "lexes example_matcher ''('' [(0, 1, LPAREN)]"
    by (simp add: lexes_def matcher_eval)
  then show ?thesis
    by (simp add: lexes_def tokenizer_eval drain_numeral numeral_2_eq_2 [symmetric])
qed

text \<open>
  Claim C8, amended. For every file object with a name and every matcher whose matches
  are non-empty, the run of the lexer ends within as many resumptions as the text has
  characters, plus three. It ends in a located syntax error (an illegal character, an
  extraneous or an unclosed bracket) or with the complete token list; and every complete
  token list consists of the matched tokens, then exactly one implicit \<open>NEWLINE\<close> if and
  only if the text is empty or its last character is neither a carriage return nor a
  line feed, then exactly one \<open>ENDMARKER\<close> as the final token.
\<close>

theorem run_ends_with_synthetic_newline_rule_and_endmarker:
  assumes "\<forall>text i e t. m text i = Some (e, t) \<longrightarrow> i < e"
      and "name f \<noteq> None"
  shows "drain (length (buffer f) + 3) m (tokenize_file f) \<noteq> Inl OutOfFuel \<and>
     (\<forall>n toks. drain n m (tokenize_file f) = Inr toks \<longrightarrow>
        run_shape (implicit_newline (buffer f)) toks) \<and>
     (\<forall>n e. drain n m (tokenize_file f) = Inl e \<longrightarrow> e = OutOfFuel \<or> is_syntax_error e)"
proof -
  from assms(2) obtain nm where named: "name f = Some nm" by auto
  have "drain (length (buffer f) + 3) m (tokenize_file f) \<noteq> Inl OutOfFuel"
    using assms(1) named by (rule drain_fuel_start)
  moreover have "\<forall>n toks. drain n m (tokenize_file f) = Inr toks \<longrightarrow>
      run_shape (implicit_newline (buffer f)) toks"
    using named by (blast intro: drain_shape_start)
  moreover have "\<forall>n e. drain n m (tokenize_file f) = Inl e \<longrightarrow>
      e = OutOfFuel \<or> is_syntax_error e"
    using named by (blast dest: drain_error_start)
  ultimately show ?thesis by (intro conjI)
qed

theorem run_ends_with_synthetic_newline_rule_and_endmarker_witness:
  "name \<lparr>name = Some ''f'', buffer = ''m1''\<rparr> \<noteq> None \<and>
   drain (length (buffer \<lparr>name = Some ''f'', buffer = ''m1''\<rparr>) + 3) example_matcher (tokenize_file \<lparr>name = Some ''f'', buffer = ''m1''\<rparr>) \<noteq> Inl OutOfFuel \<and>
   drain 2 example_matcher (tokenize_file \<lparr>name = Some ''f'', buffer = ''m1''\<rparr>) = Inl OutOfFuel \<and>
   drain 5 example_matcher (tokenize_file \<lparr>name = Some ''f'', buffer = ''m1''\<rparr>) =
     Inr [\<lparr>lineno = 1, start_index = 1, stop_index = 3, type = NAME, value = Some ''m1''\<rparr>,
          \<lparr>lineno = 1, start_index = 3, stop_index = 3, type = NEWLINE, value = None\<rparr>,
          \<lparr>lineno = 2, start_index = 1, stop_index = 1, type = ENDMARKER, value = None\<rparr>] \<and>
   run_shape (implicit_newline (buffer \<lparr>name = Some ''f'', buffer = ''m1''\<rparr>))
     [\<lparr>lineno = 1, start_index = 1, stop_index = 3, type = NAME, value = Some ''m1''\<rparr>,
          \<lparr>lineno = 1, start_index = 3, stop_index = 3, type = NEWLINE, value = None\<rparr>,
          \<lparr>lineno = 2, start_index = 1, stop_index = 1, type = ENDMARKER, value = None\<rparr>]"
proof -
  have named: "name \<lparr>name = Some ''f'', buffer = ''m1''\<rparr> \<noteq> None" by simp
  note t = run_ends_with_synthetic_newline_rule_and_endmarker
    [OF example_matcher_progress named]
  have "lexes example_matcher ''m1'' [(0, 2, NAME)]"
    by (simp add: lexes_def matcher_eval)
  then have run: "drain 5 example_matcher (tokenize_file \<lparr>name = Some ''f'', buffer = ''m1''\<rparr>) =
     Inr [\<lparr>lineno = 1, start_index = 1, stop_index = 3, type = NAME, value = Some ''m1''\<rparr>,
          \<lparr>lineno = 1, start_index = 3, stop_index = 3, type = NEWLINE, value = None\<rparr>,
          \<lparr>lineno = 2, start_index = 1, stop_index = 1, type = ENDMARKER, value = None\<rparr>]"
    by (simp add: lexes_def tokenizer_eval drain_numeral numeral_2_eq_2 [symmetric])
  from \<open>lexes example_matcher ''m1'' [(0, 2, NAME)]\<close>
  have short: "drain 2 example_matcher (tokenize_file \<lparr>name = Some ''f'', buffer = ''m1''\<rparr>) = Inl OutOfFuel"
    by (simp add: lexes_def tokenizer_eval drain_numeral numeral_2_eq_2 [symmetric])
  from t have "\<forall>n e. drain n example_matcher (tokenize_file \<lparr>name = Some ''f'', buffer = ''m1''\<rparr>) = Inl e \<longrightarrow>
      e = OutOfFuel \<or> is_syntax_error e"
    by (elim conjE)
  with short have "OutOfFuel = OutOfFuel \<or> is_syntax_error OutOfFuel"
    by blast
  from t have "\<forall>n toks. drain n example_matcher (tokenize_file \<lparr>name = Some ''f'', buffer = ''m1''\<rparr>) = Inr toks \<longrightarrow>
      run_shape (implicit_newline (buffer \<lparr>name = Some ''f'', buffer = ''m1''\<rparr>)) toks"
    by (elim conjE)
  with run have "run_shape (implicit_newline (buffer \<lparr>name = Some ''f'', buffer = ''m1''\<rparr>))
     [\<lparr>lineno = 1, start_index = 1, stop_index = 3, type = NAME, value = Some ''m1''\<rparr>,
          \<lparr>lineno = 1, start_index = 3, stop_index = 3, type = NEWLINE, value = None\<rparr>,
          \<lparr>lineno = 2, start_index = 1, stop_index = 1, type = ENDMARKER, value = None\<rparr>]"
    by blast
  with t named run short show ?thesis by (elim conjE) (intro conjI)
qed

end
